theory Spec2Isabelle
  imports Complex_Main
begin

section \<open>Data model\<close>

text \<open>
  The entities of \<^verbatim>\<open>apps/*/models.py\<close>. A foreign key is the related object itself, as
  the Python attribute \<^verbatim>\<open>task.project.organization\<close> reads it. The two timestamp columns
  (\<^verbatim>\<open>created_at\<close>, \<^verbatim>\<open>updated_at\<close>) are filled by the database and read by none of the
  functions below; they are left out. Dates are day numbers.

  A Python string is the list of its code points, one \<^typ>\<open>char\<close> each, so the strings of
  this theory are those whose code points lie below 256.
\<close>

record organization =
  org_id :: int
  org_name :: string
  org_slug :: string
  org_contact_email :: string
  org_description :: string
  org_is_active :: bool

record project =
  proj_id :: int
  proj_organization :: organization
  proj_name :: string
  proj_description :: string
  proj_status :: string
  proj_due_date :: "int option"

record task =
  task_id :: int
  task_project :: project
  task_title :: string
  task_description :: string
  task_status :: string
  task_priority :: string
  task_assignee_email :: string
  task_due_date :: "int option"

record task_comment =
  comment_id :: int
  comment_task :: task
  comment_content :: string
  comment_author_email :: string

text \<open>
  The Entity Store: the rows of the four tables. Projects and tasks are kept in the order of
  their \<^verbatim>\<open>Meta.ordering\<close>, \<^verbatim>\<open>['-created_at']\<close>, the newest row first, which is the order in
  which \<^verbatim>\<open>objects.all()\<close> returns them. No function below depends on the order of the
  organizations or of the comments.
\<close>

record store =
  organizations :: "organization list"
  projects :: "project list"
  tasks :: "task list"
  task_comments :: "task_comment list"

text \<open>
  Django compares two instances of one model by primary key (\<^verbatim>\<open>Model.__eq__\<close>), and a model
  instance is always truthy, so \<^verbatim>\<open>if organization\<close> tests for \<^verbatim>\<open>None\<close> only.
\<close>

definition organization_eq :: "organization \<Rightarrow> organization \<Rightarrow> bool" where
  "organization_eq a b = (org_id a = org_id b)"

section \<open>Exceptions\<close>

datatype model = OrganizationModel | ProjectModel | TaskModel | TaskCommentModel

fun model_name :: "model \<Rightarrow> string" where
  "model_name OrganizationModel = ''Organization''"
| "model_name ProjectModel = ''Project''"
| "model_name TaskModel = ''Task''"
| "model_name TaskCommentModel = ''TaskComment''"

text \<open>
  The exceptions the modelled code raises or lets through; every one of them derives from
  Python's \<^verbatim>\<open>Exception\<close>. \<open>StoreError\<close> stands for any other exception of the database
  layer, with its message.
\<close>

datatype exn =
    DoesNotExist model
  | MultipleObjectsReturned model
  | FieldError string
  | PermissionDenied string
  | IntegrityError string
  | ValueError string
  | OverflowError string
  | StoreError string

text \<open>\<^verbatim>\<open>str(e)\<close>.\<close>

fun str_exn :: "exn \<Rightarrow> string" where
  "str_exn (DoesNotExist m) = model_name m @ '' matching query does not exist.''"
| "str_exn (MultipleObjectsReturned m) = ''get() returned more than one '' @ model_name m"
| "str_exn (FieldError s) = s"
| "str_exn (PermissionDenied s) = s"
| "str_exn (IntegrityError s) = s"
| "str_exn (ValueError s) = s"
| "str_exn (OverflowError s) = s"
| "str_exn (StoreError s) = s"

section \<open>Requests and responses\<close>

text \<open>
  \<^verbatim>\<open>request.META\<close> and \<^verbatim>\<open>request.GET\<close> are dictionaries of strings. The attribute
  \<^verbatim>\<open>request.organization\<close> may be missing (\<open>None\<close>), set to \<^verbatim>\<open>None\<close> (\<open>Some None\<close>) or set
  to an organization.
\<close>

record request =
  req_META :: "string \<rightharpoonup> string"
  req_GET :: "string \<rightharpoonup> string"
  req_path :: string
  req_organization :: "organization option option"

text \<open>A \<^verbatim>\<open>JsonResponse\<close>: the status code and the fields of the JSON object, in order.\<close>

record response =
  resp_status :: nat
  resp_body :: "(string \<times> string) list"
  resp_headers :: "(string \<times> string) list"

definition JsonResponse :: "(string \<times> string) list \<Rightarrow> nat \<Rightarrow> response" where
  "JsonResponse body status = \<lparr>resp_status = status, resp_body = body, resp_headers = []\<rparr>"

text \<open>Truthiness of an optional string: \<^verbatim>\<open>None\<close> and \<^verbatim>\<open>''\<close> are falsy.\<close>

fun truthy :: "string option \<Rightarrow> bool" where
  "truthy None = False"
| "truthy (Some s) = (s \<noteq> [])"

section \<open>Request Gate\<close>

definition EXEMPT_PATHS :: "string list" where
  "EXEMPT_PATHS = [''/admin/'', ''/graphql/'', ''/api/organizations/'']"

text \<open>\<^verbatim>\<open>str.startswith\<close>.\<close>

definition startswith :: "string \<Rightarrow> string \<Rightarrow> bool" where
  "startswith s p = (take (length p) s = p)"

text \<open>
  \<^verbatim>\<open>RequireOrganizationMiddleware.process_request\<close>: \<open>None\<close> lets the request through,
  \<open>Some r\<close> answers it with \<open>r\<close>.
\<close>

definition gate_response :: response where
  "gate_response = JsonResponse
     [(''error'', ''Organization context required''),
      (''message'',
       ''Please provide organization via X-Organization-Slug header or organization_slug parameter'')]
     400"

definition RequireOrganizationMiddleware_process_request :: "request \<Rightarrow> response option" where
  "RequireOrganizationMiddleware_process_request request =
     (if \<exists>exempt_path \<in> set EXEMPT_PATHS. startswith (req_path request) exempt_path then None
      else if \<not> startswith (req_path request) ''/api/'' then None
      else if req_organization request = None \<or> req_organization request = Some None
        then Some gate_response
      else None)"

text \<open>
  \<^verbatim>\<open>MiddlewareMixin.__call__\<close> of Django: the next handler \<open>get_response\<close> runs only when
  \<^verbatim>\<open>process_request\<close> returned nothing. (This middleware has no \<^verbatim>\<open>process_response\<close>.)
\<close>

definition RequireOrganizationMiddleware_call ::
  "(request \<Rightarrow> response) \<Rightarrow> request \<Rightarrow> response" where
  "RequireOrganizationMiddleware_call get_response request =
     (case RequireOrganizationMiddleware_process_request request of
        Some r \<Rightarrow> r
      | None \<Rightarrow> get_response request)"

section \<open>Lookups in the Entity Store\<close>

text \<open>
  \<^verbatim>\<open>Manager.get\<close>, applied to the rows that passed the filter: exactly one row is returned,
  none raises \<^verbatim>\<open>DoesNotExist\<close>, several raise \<^verbatim>\<open>MultipleObjectsReturned\<close>.
\<close>

fun objects_get :: "model \<Rightarrow> 'a list \<Rightarrow> exn + 'a" where
  "objects_get m [] = Inl (DoesNotExist m)"
| "objects_get m [x] = Inr x"
| "objects_get m (x # y # ys) = Inl (MultipleObjectsReturned m)"

text \<open>
  A primary key arrives as text (a header, a query parameter, a GraphQL \<^verbatim>\<open>ID\<close>) and Django
  converts it with Python's \<^verbatim>\<open>int()\<close>: surrounding whitespace, an optional sign, decimal
  digits with single underscores between them. Anything else raises \<^verbatim>\<open>ValueError\<close>. The
  whitespace \<^verbatim>\<open>int()\<close> strips is tab to carriage return, space, U+0085 and U+00A0; the
  separators U+001C to U+001F, which \<^verbatim>\<open>str.isspace\<close> accepts, it does not strip.
\<close>

definition is_int_space :: "char \<Rightarrow> bool" where
  "is_int_space c = (of_char c \<in> {9::nat, 10, 11, 12, 13, 32, 133, 160})"

text \<open>\<^verbatim>\<open>str.isspace\<close>, which is also the class \<^verbatim>\<open>\s\<close> of a regular expression on strings.\<close>

definition is_space :: "char \<Rightarrow> bool" where
  "is_space c = (of_char c \<in> {9::nat, 10, 11, 12, 13, 28, 29, 30, 31, 32, 133, 160})"

definition is_digit :: "char \<Rightarrow> bool" where
  "is_digit c = (48 \<le> (of_char c :: nat) \<and> (of_char c :: nat) \<le> 57)"

definition digit_val :: "char \<Rightarrow> int" where
  "digit_val c = int (of_char c) - 48"

fun int_digits :: "int \<Rightarrow> string \<Rightarrow> int option" where
  "int_digits acc [] = Some acc"
| "int_digits acc (c # cs) =
     (if is_digit c then int_digits (acc * 10 + digit_val c) cs
      else if c = CHR ''_'' \<and> cs \<noteq> [] \<and> is_digit (hd cs) then int_digits acc cs
      else None)"

definition strip :: "string \<Rightarrow> string" where
  "strip s = rev (dropWhile is_int_space (rev (dropWhile is_int_space s)))"

definition int_unsigned :: "string \<Rightarrow> int option" where
  "int_unsigned s = (if s \<noteq> [] \<and> is_digit (hd s) then int_digits 0 s else None)"

definition py_int :: "string \<Rightarrow> int option" where
  "py_int s =
     (case strip s of
        [] \<Rightarrow> None
      | c # cs \<Rightarrow>
          if c = CHR ''-'' then map_option uminus (int_unsigned cs)
          else if c = CHR ''+'' then int_unsigned cs
          else int_unsigned (c # cs))"

text \<open>
  \<^verbatim>\<open>repr\<close> of a string: in single quotes, or in double quotes when the string has a single
  quote and no double quote; the quote and the backslash are escaped, tab, newline and
  carriage return are written \<^verbatim>\<open>\t\<close>, \<^verbatim>\<open>\n\<close>, \<^verbatim>\<open>\r\<close>, and every other code point that is not
  printable is written \<^verbatim>\<open>\xNN\<close>.
\<close>

definition hex_digit :: "nat \<Rightarrow> char" where
  "hex_digit n = (if n < 10 then char_of (48 + n) else char_of (87 + n))"

definition is_printable :: "char \<Rightarrow> bool" where
  "is_printable c =
     (32 \<le> (of_char c :: nat) \<and> (of_char c :: nat) \<noteq> 127
      \<and> \<not> (128 \<le> (of_char c :: nat) \<and> (of_char c :: nat) \<le> 160) \<and> (of_char c :: nat) \<noteq> 173)"

definition repr_char :: "char \<Rightarrow> char \<Rightarrow> string" where
  "repr_char quote c =
     (if c = quote \<or> c = CHR 0x5C then [CHR 0x5C, c]
      else if c = CHR 0x09 then [CHR 0x5C, CHR ''t'']
      else if c = CHR 0x0A then [CHR 0x5C, CHR ''n'']
      else if c = CHR 0x0D then [CHR 0x5C, CHR ''r'']
      else if \<not> is_printable c
        then [CHR 0x5C, CHR ''x'', hex_digit (of_char c div 16), hex_digit (of_char c mod 16)]
      else [c])"

definition py_repr :: "string \<Rightarrow> string" where
  "py_repr s =
     (let quote = (if CHR 0x27 \<in> set s \<and> CHR 0x22 \<notin> set s then CHR 0x22 else CHR 0x27)
      in [quote] @ concat (map (repr_char quote) s) @ [quote])"

text \<open>\<^verbatim>\<open>"Field '%s' expected a number but got %r." % ('id', value)\<close>\<close>

definition pk_ValueError :: "string \<Rightarrow> exn" where
  "pk_ValueError v =
     ValueError (''Field '' @ [CHR 0x27] @ ''id'' @ [CHR 0x27] @ '' expected a number but got ''
                 @ py_repr v @ ''.'')"

text \<open>
  The value a lookup by id or pk compares with. The id column holds 64-bit integers; a
  value beyond them is refused when it is bound to the query (with the SQLite driver, by an
  \<^verbatim>\<open>OverflowError\<close>).
\<close>

definition pk_value :: "string \<Rightarrow> exn + int" where
  "pk_value ident =
     (case py_int ident of
        None \<Rightarrow> Inl (pk_ValueError ident)
      | Some n \<Rightarrow>
          if n < - (2 ^ 63) \<or> 2 ^ 63 \<le> n
          then Inl (OverflowError ''Python int too large to convert to SQLite INTEGER'')
          else Inr n)"

text \<open>\<^verbatim>\<open>Organization.objects.get(slug=org_slug, is_active=True)\<close>\<close>

definition Organization_get_slug_active :: "store \<Rightarrow> string \<Rightarrow> exn + organization" where
  "Organization_get_slug_active st slug =
     objects_get OrganizationModel
       (filter (\<lambda>org. org_slug org = slug \<and> org_is_active org) (organizations st))"

text \<open>\<^verbatim>\<open>Organization.objects.get(id=org_id, is_active=True)\<close>\<close>

definition Organization_get_id_active :: "store \<Rightarrow> string \<Rightarrow> exn + organization" where
  "Organization_get_id_active st ident =
     (case pk_value ident of
        Inl e \<Rightarrow> Inl e
      | Inr n \<Rightarrow>
          objects_get OrganizationModel
            (filter (\<lambda>org. org_id org = n \<and> org_is_active org) (organizations st)))"

section \<open>Tenant Resolver\<close>

text \<open>
  The first lines of \<^verbatim>\<open>OrganizationMiddleware.process_request\<close>: the pair
  \<^verbatim>\<open>(org_slug, org_id)\<close> read from the headers, or from the query parameters when both header
  values are falsy.
\<close>

definition tenant_identifiers :: "request \<Rightarrow> string option \<times> string option" where
  "tenant_identifiers request =
     (let org_slug = req_META request ''HTTP_X_ORGANIZATION_SLUG'';
          org_id = req_META request ''HTTP_X_ORGANIZATION_ID''
      in if \<not> truthy org_slug \<and> \<not> truthy org_id
         then (req_GET request ''organization_slug'', req_GET request ''organization_id'')
         else (org_slug, org_id))"

text \<open>
  The \<^verbatim>\<open>try\<close> block and its \<^verbatim>\<open>except Organization.DoesNotExist: pass\<close>: the value stored in
  \<^verbatim>\<open>request.organization\<close>, or the exception that escapes.
\<close>

definition resolve_organization_ctx :: "store \<Rightarrow> string option \<times> string option \<Rightarrow> exn + organization option" where
  "resolve_organization_ctx st ids =
     (case (if truthy (fst ids) then map_sum id Some (Organization_get_slug_active st (the (fst ids)))
            else if truthy (snd ids) then map_sum id Some (Organization_get_id_active st (the (snd ids)))
            else Inr None) of
        Inl e \<Rightarrow> (if e = DoesNotExist OrganizationModel then Inr None else Inl e)
      | Inr organization \<Rightarrow> Inr organization)"

definition OrganizationMiddleware_process_request :: "store \<Rightarrow> request \<Rightarrow> exn + request" where
  "OrganizationMiddleware_process_request st request =
     (case resolve_organization_ctx st (tenant_identifiers request) of
        Inl e \<Rightarrow> Inl e
      | Inr organization \<Rightarrow> Inr (request\<lparr>req_organization := Some organization\<rparr>))"

text \<open>
  The resolution order as the specification words it, for comparison with the code: the four
  sources in their order, the first one present decides the kind of lookup, and a miss of
  that lookup is final.
\<close>

datatype source_kind = BySlug | ById

definition spec_sources :: "request \<Rightarrow> (source_kind \<times> string option) list" where
  "spec_sources request =
     [(BySlug, req_META request ''HTTP_X_ORGANIZATION_SLUG''),
      (ById, req_META request ''HTTP_X_ORGANIZATION_ID''),
      (BySlug, req_GET request ''organization_slug''),
      (ById, req_GET request ''organization_id'')]"

fun spec_first_present :: "(source_kind \<times> string option) list \<Rightarrow> (source_kind \<times> string) option" where
  "spec_first_present [] = None"
| "spec_first_present ((k, None) # rest) = spec_first_present rest"
| "spec_first_present ((k, Some v) # rest) = (if v \<noteq> [] then Some (k, v) else spec_first_present rest)"

fun spec_lookup :: "store \<Rightarrow> source_kind \<Rightarrow> string \<Rightarrow> exn + organization" where
  "spec_lookup st BySlug v = Organization_get_slug_active st v"
| "spec_lookup st ById v = Organization_get_id_active st v"

definition spec_tenant_resolver :: "store \<Rightarrow> request \<Rightarrow> exn + organization option" where
  "spec_tenant_resolver st request =
     (case spec_first_present (spec_sources request) of
        None \<Rightarrow> Inr None
      | Some (k, v) \<Rightarrow>
          (case spec_lookup st k v of
             Inr organization \<Rightarrow> Inr (Some organization)
           | Inl e \<Rightarrow> (if e = DoesNotExist OrganizationModel then Inr None else Inl e)))"

section \<open>Query handlers\<close>

text \<open>\<^verbatim>\<open>getattr(info.context, 'organization', None)\<close>: the context is the request.\<close>

definition context_organization :: "request \<Rightarrow> organization option" where
  "context_organization info = (case req_organization info of None \<Rightarrow> None | Some v \<Rightarrow> v)"

text \<open>\<^verbatim>\<open>Model.objects.get(pk=id)\<close> for each model; the id is a GraphQL \<^verbatim>\<open>ID\<close>, a string.\<close>

definition Organization_get_pk :: "store \<Rightarrow> string \<Rightarrow> exn + organization" where
  "Organization_get_pk st ident =
     (case pk_value ident of
        Inl e \<Rightarrow> Inl e
      | Inr n \<Rightarrow> objects_get OrganizationModel (filter (\<lambda>org. org_id org = n) (organizations st)))"

definition Project_get_pk :: "store \<Rightarrow> string \<Rightarrow> exn + project" where
  "Project_get_pk st ident =
     (case pk_value ident of
        Inl e \<Rightarrow> Inl e
      | Inr n \<Rightarrow> objects_get ProjectModel (filter (\<lambda>p. proj_id p = n) (projects st)))"

definition Task_get_pk :: "store \<Rightarrow> string \<Rightarrow> exn + task" where
  "Task_get_pk st ident =
     (case pk_value ident of
        Inl e \<Rightarrow> Inl e
      | Inr n \<Rightarrow> objects_get TaskModel (filter (\<lambda>t. task_id t = n) (tasks st)))"

definition TaskComment_get_pk :: "store \<Rightarrow> string \<Rightarrow> exn + task_comment" where
  "TaskComment_get_pk st ident =
     (case pk_value ident of
        Inl e \<Rightarrow> Inl e
      | Inr n \<Rightarrow> objects_get TaskCommentModel (filter (\<lambda>c. comment_id c = n) (task_comments st)))"

text \<open>
  \<^verbatim>\<open>ProjectQuery.resolve_project\<close>: \<open>Inr None\<close> is the \<^verbatim>\<open>None\<close> returned for a missing row; the
  \<^verbatim>\<open>PermissionDenied\<close> raised inside the \<^verbatim>\<open>try\<close> is not a \<^verbatim>\<open>DoesNotExist\<close> and escapes.
\<close>

definition resolve_project :: "store \<Rightarrow> request \<Rightarrow> string \<Rightarrow> exn + project option" where
  "resolve_project st info ident =
     (case Project_get_pk st ident of
        Inl e \<Rightarrow> (if e = DoesNotExist ProjectModel then Inr None else Inl e)
      | Inr project \<Rightarrow>
          (case context_organization info of
             None \<Rightarrow> Inr (Some project)
           | Some organization \<Rightarrow>
               if \<not> organization_eq (proj_organization project) organization
               then Inl (PermissionDenied ''Access denied to this project'')
               else Inr (Some project)))"

text \<open>\<^verbatim>\<open>TaskQuery.resolve_task\<close>\<close>

definition resolve_task :: "store \<Rightarrow> request \<Rightarrow> string \<Rightarrow> exn + task option" where
  "resolve_task st info ident =
     (case Task_get_pk st ident of
        Inl e \<Rightarrow> (if e = DoesNotExist TaskModel then Inr None else Inl e)
      | Inr task \<Rightarrow>
          (case context_organization info of
             None \<Rightarrow> Inr (Some task)
           | Some organization \<Rightarrow>
               if \<not> organization_eq (proj_organization (task_project task)) organization
               then Inl (PermissionDenied ''Access denied to this task'')
               else Inr (Some task)))"

text \<open>\<^verbatim>\<open>TaskQuery.resolve_task_comment\<close>\<close>

definition resolve_task_comment :: "store \<Rightarrow> request \<Rightarrow> string \<Rightarrow> exn + task_comment option" where
  "resolve_task_comment st info ident =
     (case TaskComment_get_pk st ident of
        Inl e \<Rightarrow> (if e = DoesNotExist TaskCommentModel then Inr None else Inl e)
      | Inr comment \<Rightarrow>
          (case context_organization info of
             None \<Rightarrow> Inr (Some comment)
           | Some organization \<Rightarrow>
               if \<not> organization_eq (proj_organization (task_project (comment_task comment)))
                      organization
               then Inl (PermissionDenied ''Access denied to this comment'')
               else Inr (Some comment)))"

text \<open>
  \<^verbatim>\<open>resolve_projects\<close> and \<^verbatim>\<open>resolve_tasks\<close>: \<^verbatim>\<open>list(Model.objects.all())\<close>, the rows in the
  order of the model, newest first, which is the order the store keeps them in.
\<close>

definition resolve_projects :: "store \<Rightarrow> request \<Rightarrow> project list" where
  "resolve_projects st info = projects st"

definition resolve_tasks :: "store \<Rightarrow> request \<Rightarrow> task list" where
  "resolve_tasks st info = tasks st"

section \<open>Scope Enforcer\<close>

text \<open>A queryset: its model and its rows.\<close>

datatype queryset =
    OrganizationQS "organization list"
  | ProjectQS "project list"
  | TaskQS "task list"
  | TaskCommentQS "task_comment list"

fun queryset_model :: "queryset \<Rightarrow> model" where
  "queryset_model (OrganizationQS _) = OrganizationModel"
| "queryset_model (ProjectQS _) = ProjectModel"
| "queryset_model (TaskQS _) = TaskModel"
| "queryset_model (TaskCommentQS _) = TaskCommentModel"

fun queryset_none :: "queryset \<Rightarrow> queryset" where
  "queryset_none (OrganizationQS _) = OrganizationQS []"
| "queryset_none (ProjectQS _) = ProjectQS []"
| "queryset_none (TaskQS _) = TaskQS []"
| "queryset_none (TaskCommentQS _) = TaskCommentQS []"

text \<open>
  The attributes each model class declares in \<^verbatim>\<open>models.py\<close>: its columns, its properties
  and methods, and the reverse accessor a foreign key of another model gives it
  (\<^verbatim>\<open>related_name\<close>). A \<^verbatim>\<open>@property\<close> is an attribute of the class like any other, so
  \<^verbatim>\<open>hasattr(Task, 'organization')\<close> holds. What a model class inherits from \<^verbatim>\<open>models.Model\<close> or
  receives from Django (\<^verbatim>\<open>objects\<close>, \<^verbatim>\<open>pk\<close>, \<^verbatim>\<open>get_status_display\<close> and the like) is not
  listed; nothing of it is called \<^verbatim>\<open>organization\<close>, \<^verbatim>\<open>project\<close> or \<^verbatim>\<open>task\<close>.
\<close>

fun class_attributes :: "model \<Rightarrow> string list" where
  "class_attributes OrganizationModel =
     [''id'', ''name'', ''slug'', ''contact_email'', ''description'', ''is_active'', ''created_at'',
      ''updated_at'', ''save'', ''project_count'', ''active_project_count'', ''projects'']"
| "class_attributes ProjectModel =
     [''STATUS_CHOICES'', ''id'', ''organization'', ''organization_id'', ''name'', ''description'',
      ''status'', ''due_date'', ''created_at'', ''updated_at'', ''task_count'', ''completed_tasks'',
      ''completion_rate'', ''is_overdue'', ''get_tasks_by_status'', ''tasks'']"
| "class_attributes TaskModel =
     [''TASK_STATUS_CHOICES'', ''PRIORITY_CHOICES'', ''id'', ''project'', ''project_id'', ''title'',
      ''description'', ''status'', ''priority'', ''assignee_email'', ''due_date'', ''created_at'',
      ''updated_at'', ''organization'', ''is_overdue'', ''comment_count'', ''comments'']"
| "class_attributes TaskCommentModel =
     [''id'', ''task'', ''task_id'', ''content'', ''author_email'', ''created_at'', ''updated_at'',
      ''organization'']"

definition hasattr :: "model \<Rightarrow> string \<Rightarrow> bool" where
  "hasattr m name = (name \<in> set (class_attributes m))"

text \<open>
  \<^verbatim>\<open>QuerySet.filter\<close> resolves its keyword against the columns and relations of the model,
  not against the attributes of the class: a keyword that names no column raises
  \<^verbatim>\<open>FieldError\<close>, a property included. (Django's message goes on to list the valid choices.)
\<close>

definition unresolved_keyword :: "string \<Rightarrow> exn" where
  "unresolved_keyword kw =
     FieldError (''Cannot resolve keyword '' @ [CHR 0x27] @ kw @ [CHR 0x27] @ '' into field.'')"

text \<open>\<^verbatim>\<open>queryset.filter(organization=organization)\<close>: only \<^verbatim>\<open>Project\<close> has that column.\<close>

fun filter_organization :: "queryset \<Rightarrow> organization \<Rightarrow> exn + queryset" where
  "filter_organization (ProjectQS ps) organization =
     Inr (ProjectQS (filter (\<lambda>p. organization_eq (proj_organization p) organization) ps))"
| "filter_organization (OrganizationQS _) organization = Inl (unresolved_keyword ''organization'')"
| "filter_organization (TaskQS _) organization = Inl (unresolved_keyword ''organization'')"
| "filter_organization (TaskCommentQS _) organization = Inl (unresolved_keyword ''organization'')"

text \<open>\<^verbatim>\<open>queryset.filter(project__organization=organization)\<close>: only \<^verbatim>\<open>Task\<close> has \<^verbatim>\<open>project\<close>.\<close>

fun filter_project__organization :: "queryset \<Rightarrow> organization \<Rightarrow> exn + queryset" where
  "filter_project__organization (TaskQS ts) organization =
     Inr (TaskQS (filter (\<lambda>t. organization_eq (proj_organization (task_project t)) organization) ts))"
| "filter_project__organization (OrganizationQS _) organization = Inl (unresolved_keyword ''project'')"
| "filter_project__organization (ProjectQS _) organization = Inl (unresolved_keyword ''project'')"
| "filter_project__organization (TaskCommentQS _) organization = Inl (unresolved_keyword ''project'')"

text \<open>\<^verbatim>\<open>queryset.filter(task__project__organization=organization)\<close>\<close>

fun filter_task__project__organization :: "queryset \<Rightarrow> organization \<Rightarrow> exn + queryset" where
  "filter_task__project__organization (TaskCommentQS cs) organization =
     Inr (TaskCommentQS
       (filter (\<lambda>c. organization_eq (proj_organization (task_project (comment_task c))) organization)
          cs))"
| "filter_task__project__organization (OrganizationQS _) organization = Inl (unresolved_keyword ''task'')"
| "filter_task__project__organization (ProjectQS _) organization = Inl (unresolved_keyword ''task'')"
| "filter_task__project__organization (TaskQS _) organization = Inl (unresolved_keyword ''task'')"

text \<open>\<^verbatim>\<open>MultiTenantQuerySet.filter_by_organization\<close>\<close>

definition filter_by_organization :: "queryset \<Rightarrow> organization \<Rightarrow> exn + queryset" where
  "filter_by_organization queryset organization =
     (let model = queryset_model queryset
      in if hasattr model ''organization'' then filter_organization queryset organization
         else if hasattr model ''project'' then filter_project__organization queryset organization
         else if hasattr model ''task'' then filter_task__project__organization queryset organization
         else Inr (queryset_none queryset))"

text \<open>\<^verbatim>\<open>validate_organization_access\<close>\<close>

definition validate_organization_access :: "organization option \<Rightarrow> exn + bool" where
  "validate_organization_access organization =
     (case organization of
        None \<Rightarrow> Inl (PermissionDenied ''Organization not found'')
      | Some org \<Rightarrow>
          if \<not> org_is_active org then Inl (PermissionDenied ''Organization is not active'')
          else Inr True)"

section \<open>Slugs\<close>

text \<open>
  \<^verbatim>\<open>django.utils.text.slugify\<close> (as of Django 3.2): decompose the string by NFKD and drop
  what is not ASCII, lower the case, drop every character that is not a word character,
  whitespace or a hyphen, turn each run of whitespace and hyphens into one hyphen, strip
  hyphens and underscores from both ends.
\<close>

text \<open>
  \<^verbatim>\<open>unicodedata.normalize('NFKD', c).encode('ascii', 'ignore')\<close> for the code points from 128
  to 255: the ASCII part of the decomposition, when there is one.
\<close>

definition nfkd_ascii_table :: "(nat \<times> string) list" where
  "nfkd_ascii_table =
     [(160, '' ''), (168, '' ''), (170, ''a''), (175, '' ''), (178, ''2''), (179, ''3''),
      (180, '' ''), (184, '' ''), (185, ''1''), (186, ''o''), (188, ''14''), (189, ''12''),
      (190, ''34''), (192, ''A''), (193, ''A''), (194, ''A''), (195, ''A''), (196, ''A''),
      (197, ''A''), (199, ''C''), (200, ''E''), (201, ''E''), (202, ''E''), (203, ''E''),
      (204, ''I''), (205, ''I''), (206, ''I''), (207, ''I''), (209, ''N''), (210, ''O''),
      (211, ''O''), (212, ''O''), (213, ''O''), (214, ''O''), (217, ''U''), (218, ''U''),
      (219, ''U''), (220, ''U''), (221, ''Y''), (224, ''a''), (225, ''a''), (226, ''a''),
      (227, ''a''), (228, ''a''), (229, ''a''), (231, ''c''), (232, ''e''), (233, ''e''),
      (234, ''e''), (235, ''e''), (236, ''i''), (237, ''i''), (238, ''i''), (239, ''i''),
      (241, ''n''), (242, ''o''), (243, ''o''), (244, ''o''), (245, ''o''), (246, ''o''),
      (249, ''u''), (250, ''u''), (251, ''u''), (252, ''u''), (253, ''y''), (255, ''y'')]"

definition nfkd_ascii :: "char \<Rightarrow> string" where
  "nfkd_ascii c =
     (if (of_char c :: nat) < 128 then [c]
      else case map_of nfkd_ascii_table (of_char c) of None \<Rightarrow> [] | Some s \<Rightarrow> s)"

definition lower_char :: "char \<Rightarrow> char" where
  "lower_char c =
     (if 65 \<le> (of_char c :: nat) \<and> (of_char c :: nat) \<le> 90 then char_of (of_char c + 32 :: nat)
      else c)"

definition is_word_char :: "char \<Rightarrow> bool" where
  "is_word_char c =
     (is_digit c \<or> (97 \<le> (of_char c :: nat) \<and> (of_char c :: nat) \<le> 122)
      \<or> (65 \<le> (of_char c :: nat) \<and> (of_char c :: nat) \<le> 90) \<or> c = CHR ''_'')"

definition is_separator :: "char \<Rightarrow> bool" where
  "is_separator c = (c = CHR ''-'' \<or> is_space c)"

fun collapse_separators :: "bool \<Rightarrow> string \<Rightarrow> string" where
  "collapse_separators in_run [] = []"
| "collapse_separators in_run (c # cs) =
     (if is_separator c
      then (if in_run then collapse_separators True cs else CHR ''-'' # collapse_separators True cs)
      else c # collapse_separators False cs)"

definition strip_chars :: "(char \<Rightarrow> bool) \<Rightarrow> string \<Rightarrow> string" where
  "strip_chars P s = rev (dropWhile P (rev (dropWhile P s)))"

definition slugify :: "string \<Rightarrow> string" where
  "slugify v =
     strip_chars (\<lambda>c. c = CHR ''-'' \<or> c = CHR ''_'')
       (collapse_separators False
          (filter (\<lambda>c. is_word_char c \<or> is_separator c)
             (map lower_char (concat (map nfkd_ascii v)))))"

text \<open>
  \<^verbatim>\<open>Organization.save\<close>. The parameter \<open>super_save\<close> is \<^verbatim>\<open>models.Model.save\<close>, the write to the
  Entity Store, which returns the stored row or raises.
\<close>

definition Organization_save ::
  "('s \<Rightarrow> organization \<Rightarrow> exn + organization \<times> 's) \<Rightarrow> 's \<Rightarrow> organization
   \<Rightarrow> exn + organization \<times> 's" where
  "Organization_save super_save st self =
     super_save st (if org_slug self = [] then self\<lparr>org_slug := slugify (org_name self)\<rparr> else self)"

text \<open>
  \<^verbatim>\<open>Organization.objects.create(name=.., contact_email=.., description=.., slug=..)\<close>: the
  constructor, then \<^verbatim>\<open>save()\<close>. A \<^verbatim>\<open>slug\<close> argument of \<^verbatim>\<open>None\<close> leaves the attribute \<^verbatim>\<open>None\<close>;
  \<^verbatim>\<open>not self.slug\<close> holds for \<^verbatim>\<open>None\<close> and for the empty string alike and \<^verbatim>\<open>save\<close> reads the
  attribute nowhere else, so the unsaved instance carries the empty string for both. Its id
  is a placeholder until the insertion assigns one; \<^verbatim>\<open>is_active\<close> takes its default.
\<close>

definition Organization_objects_create ::
  "('s \<Rightarrow> organization \<Rightarrow> exn + organization \<times> 's) \<Rightarrow> 's \<Rightarrow> string \<Rightarrow> string \<Rightarrow> string
   \<Rightarrow> string option \<Rightarrow> exn + organization \<times> 's" where
  "Organization_objects_create super_save st name contact_email description slug =
     Organization_save super_save st
       \<lparr>org_id = 0, org_name = name, org_slug = (case slug of None \<Rightarrow> [] | Some s \<Rightarrow> s),
        org_contact_email = contact_email, org_description = description, org_is_active = True\<rparr>"

section \<open>Writes to the Entity Store\<close>

text \<open>
  Insertion of a row: the next id of the table, and the uniqueness constraints the models
  declare (\<^verbatim>\<open>slug = SlugField(unique=True)\<close>, \<^verbatim>\<open>unique_together = ['organization', 'name']\<close>).
  A new project or task is the newest and goes to the front. Column lengths are not
  enforced.
\<close>

definition next_id :: "int list \<Rightarrow> int" where
  "next_id ids = fold max ids 0 + 1"

definition insert_organization :: "store \<Rightarrow> organization \<Rightarrow> exn + organization \<times> store" where
  "insert_organization st org =
     (if list_ex (\<lambda>row. org_slug row = org_slug org) (organizations st)
      then Inl (IntegrityError ''UNIQUE constraint failed: organizations.slug'')
      else let row = org\<lparr>org_id := next_id (map org_id (organizations st))\<rparr>
           in Inr (row, st\<lparr>organizations := organizations st @ [row]\<rparr>))"

definition insert_project :: "store \<Rightarrow> project \<Rightarrow> exn + project \<times> store" where
  "insert_project st p =
     (if list_ex (\<lambda>row. organization_eq (proj_organization row) (proj_organization p)
                        \<and> proj_name row = proj_name p) (projects st)
      then Inl (IntegrityError
                  ''UNIQUE constraint failed: projects.organization_id, projects.name'')
      else let row = p\<lparr>proj_id := next_id (map proj_id (projects st))\<rparr>
           in Inr (row, st\<lparr>projects := row # projects st\<rparr>))"

definition insert_task :: "store \<Rightarrow> task \<Rightarrow> exn + task \<times> store" where
  "insert_task st t =
     (let row = t\<lparr>task_id := next_id (map task_id (tasks st))\<rparr>
      in Inr (row, st\<lparr>tasks := row # tasks st\<rparr>))"

section \<open>Mutations\<close>

text \<open>The object a mutation returns: the entity or \<^verbatim>\<open>None\<close>, \<^verbatim>\<open>success\<close>, \<^verbatim>\<open>errors\<close>.\<close>

record 'a payload =
  payload_object :: "'a option"
  payload_success :: bool
  payload_errors :: "string list"

text \<open>
  The frame every \<^verbatim>\<open>mutate\<close> shares:
  \<^verbatim>\<open>try: ...; return M(obj, success=True, errors=[])\<close>, then, where the mutation has one,
  \<^verbatim>\<open>except X.DoesNotExist: return M(None, success=False, errors=[msg])\<close>, and last
  \<^verbatim>\<open>except Exception as e: return M(None, success=False, errors=[str(e)])\<close>.
  The result is a sum so that an exception no handler catches would show as \<open>Inl\<close>. A
  failed write leaves the store as it was.
\<close>

abbreviation succeeded :: "'a \<Rightarrow> 'a payload" where
  "succeeded obj \<equiv> \<lparr>payload_object = Some obj, payload_success = True, payload_errors = []\<rparr>"

abbreviation failed :: "string list \<Rightarrow> 'a payload" where
  "failed errors \<equiv> \<lparr>payload_object = None, payload_success = False, payload_errors = errors\<rparr>"

definition mutation_result ::
  "(model \<times> string) option \<Rightarrow> 's \<Rightarrow> exn + 'a \<times> 's \<Rightarrow> exn + 'a payload \<times> 's" where
  "mutation_result not_found st body =
     (case body of
        Inr (obj, st') \<Rightarrow> Inr (succeeded obj, st')
      | Inl e \<Rightarrow>
          (case not_found of
             Some (m, msg) \<Rightarrow>
               if e = DoesNotExist m then Inr (failed [msg], st)
               else Inr (failed [str_exn e], st)
           | None \<Rightarrow> Inr (failed [str_exn e], st)))"

text \<open>\<^verbatim>\<open>x or default\<close> on an optional string.\<close>

definition or_default :: "string option \<Rightarrow> string \<Rightarrow> string" where
  "or_default x d = (if truthy x then the x else d)"

text \<open>
  \<^verbatim>\<open>kwargs.get(key, default)\<close>: the key may be absent (\<open>None\<close>), present with the value
  \<^verbatim>\<open>None\<close> (\<open>Some None\<close>) or present with a value.
\<close>

fun dict_get :: "'a option option \<Rightarrow> 'a \<Rightarrow> 'a option" where
  "dict_get None d = Some d"
| "dict_get (Some v) d = v"

text \<open>
  In the mutations below the parameters \<open>get\<close>, \<open>create\<close> and \<open>save\<close> are the operations of the
  Entity Store (\<^verbatim>\<open>objects.get(pk=..)\<close>, \<^verbatim>\<open>objects.create(..)\<close>, \<^verbatim>\<open>models.Model.save\<close>); each may
  raise any exception. Every \<^verbatim>\<open>mutate\<close> receives \<open>info\<close>, whose context is the request, and none
  reads it.
\<close>

text \<open>\<^verbatim>\<open>CreateOrganizationMutation.mutate\<close>\<close>

definition CreateOrganizationMutation_mutate ::
  "('s \<Rightarrow> organization \<Rightarrow> exn + organization \<times> 's) \<Rightarrow> 's \<Rightarrow> request \<Rightarrow> string \<Rightarrow> string
   \<Rightarrow> string option \<Rightarrow> string option \<Rightarrow> exn + organization payload \<times> 's" where
  "CreateOrganizationMutation_mutate super_save st info name contact_email description slug =
     mutation_result None st
       (Organization_objects_create super_save st name contact_email (or_default description []) slug)"

record organization_kwargs =
  okw_name :: "string option"
  okw_contact_email :: "string option"
  okw_description :: "string option"
  okw_is_active :: "bool option"

text \<open>\<^verbatim>\<open>for field, value in kwargs.items(): if value is not None: setattr(obj, field, value)\<close>\<close>

definition set_organization_attrs :: "organization_kwargs \<Rightarrow> organization \<Rightarrow> organization" where
  "set_organization_attrs kw org =
     org\<lparr>org_name := (case okw_name kw of None \<Rightarrow> org_name org | Some v \<Rightarrow> v),
         org_contact_email := (case okw_contact_email kw of None \<Rightarrow> org_contact_email org | Some v \<Rightarrow> v),
         org_description := (case okw_description kw of None \<Rightarrow> org_description org | Some v \<Rightarrow> v),
         org_is_active := (case okw_is_active kw of None \<Rightarrow> org_is_active org | Some v \<Rightarrow> v)\<rparr>"

text \<open>\<^verbatim>\<open>UpdateOrganizationMutation.mutate\<close>\<close>

definition UpdateOrganizationMutation_mutate ::
  "('s \<Rightarrow> string \<Rightarrow> exn + organization) \<Rightarrow> ('s \<Rightarrow> organization \<Rightarrow> exn + organization \<times> 's)
   \<Rightarrow> 's \<Rightarrow> request \<Rightarrow> string \<Rightarrow> organization_kwargs \<Rightarrow> exn + organization payload \<times> 's" where
  "UpdateOrganizationMutation_mutate get super_save st info ident kwargs =
     mutation_result (Some (OrganizationModel, ''Organization not found'')) st
       (case get st ident of
          Inl e \<Rightarrow> Inl e
        | Inr organization \<Rightarrow>
            Organization_save super_save st (set_organization_attrs kwargs organization))"

text \<open>\<^verbatim>\<open>CreateProjectMutation.mutate\<close>\<close>

definition CreateProjectMutation_mutate ::
  "('s \<Rightarrow> string \<Rightarrow> exn + organization) \<Rightarrow> ('s \<Rightarrow> project \<Rightarrow> exn + project \<times> 's)
   \<Rightarrow> 's \<Rightarrow> request \<Rightarrow> string \<Rightarrow> string \<Rightarrow> string option \<Rightarrow> string option \<Rightarrow> int option
   \<Rightarrow> exn + project payload \<times> 's" where
  "CreateProjectMutation_mutate get create st info organization_id name description status due_date =
     mutation_result (Some (OrganizationModel, ''Organization not found'')) st
       (case get st organization_id of
          Inl e \<Rightarrow> Inl e
        | Inr organization \<Rightarrow>
            create st
              \<lparr>proj_id = 0, proj_organization = organization, proj_name = name,
               proj_description = or_default description [],
               proj_status = or_default status ''ACTIVE'', proj_due_date = due_date\<rparr>)"

record project_kwargs =
  pkw_name :: "string option"
  pkw_description :: "string option"
  pkw_status :: "string option"
  pkw_due_date :: "int option"

definition set_project_attrs :: "project_kwargs \<Rightarrow> project \<Rightarrow> project" where
  "set_project_attrs kw p =
     p\<lparr>proj_name := (case pkw_name kw of None \<Rightarrow> proj_name p | Some v \<Rightarrow> v),
       proj_description := (case pkw_description kw of None \<Rightarrow> proj_description p | Some v \<Rightarrow> v),
       proj_status := (case pkw_status kw of None \<Rightarrow> proj_status p | Some v \<Rightarrow> v),
       proj_due_date := (case pkw_due_date kw of None \<Rightarrow> proj_due_date p | Some v \<Rightarrow> Some v)\<rparr>"

text \<open>\<^verbatim>\<open>UpdateProjectMutation.mutate\<close>\<close>

definition UpdateProjectMutation_mutate ::
  "('s \<Rightarrow> string \<Rightarrow> exn + project) \<Rightarrow> ('s \<Rightarrow> project \<Rightarrow> exn + project \<times> 's)
   \<Rightarrow> 's \<Rightarrow> request \<Rightarrow> string \<Rightarrow> project_kwargs \<Rightarrow> exn + project payload \<times> 's" where
  "UpdateProjectMutation_mutate get save st info ident kwargs =
     mutation_result (Some (ProjectModel, ''Project not found'')) st
       (case get st ident of
          Inl e \<Rightarrow> Inl e
        | Inr project \<Rightarrow> save st (set_project_attrs kwargs project))"

text \<open>
  \<^verbatim>\<open>Task.objects.create(project=.., title=.., description=.., ...)\<close>: the four text columns
  are \<^verbatim>\<open>NOT NULL\<close>, so a value of \<^verbatim>\<open>None\<close> is refused by the database.
\<close>

definition Task_objects_create ::
  "('s \<Rightarrow> task \<Rightarrow> exn + task \<times> 's) \<Rightarrow> 's \<Rightarrow> project \<Rightarrow> string \<Rightarrow> string option \<Rightarrow> string option
   \<Rightarrow> string option \<Rightarrow> string option \<Rightarrow> int option \<Rightarrow> exn + task \<times> 's" where
  "Task_objects_create create st project title description status priority assignee_email due_date =
     (case description of None \<Rightarrow> Inl (IntegrityError ''NOT NULL constraint failed: tasks.description'')
      | Some d \<Rightarrow>
     (case status of None \<Rightarrow> Inl (IntegrityError ''NOT NULL constraint failed: tasks.status'')
      | Some s \<Rightarrow>
     (case priority of None \<Rightarrow> Inl (IntegrityError ''NOT NULL constraint failed: tasks.priority'')
      | Some p \<Rightarrow>
     (case assignee_email of
        None \<Rightarrow> Inl (IntegrityError ''NOT NULL constraint failed: tasks.assignee_email'')
      | Some a \<Rightarrow>
          create st
            \<lparr>task_id = 0, task_project = project, task_title = title, task_description = d,
             task_status = s, task_priority = p, task_assignee_email = a,
             task_due_date = due_date\<rparr>))))"

record create_task_kwargs =
  ctk_description :: "string option option"
  ctk_status :: "string option option"
  ctk_priority :: "string option option"
  ctk_assignee_email :: "string option option"
  ctk_due_date :: "int option"

text \<open>\<^verbatim>\<open>CreateTaskMutation.mutate\<close>\<close>

definition CreateTaskMutation_mutate ::
  "('s \<Rightarrow> string \<Rightarrow> exn + project) \<Rightarrow> ('s \<Rightarrow> task \<Rightarrow> exn + task \<times> 's)
   \<Rightarrow> 's \<Rightarrow> request \<Rightarrow> string \<Rightarrow> string \<Rightarrow> create_task_kwargs \<Rightarrow> exn + task payload \<times> 's" where
  "CreateTaskMutation_mutate get create st info project_id title kwargs =
     mutation_result (Some (ProjectModel, ''Project not found'')) st
       (case get st project_id of
          Inl e \<Rightarrow> Inl e
        | Inr project \<Rightarrow>
            Task_objects_create create st project title
              (dict_get (ctk_description kwargs) [])
              (dict_get (ctk_status kwargs) ''TODO'')
              (dict_get (ctk_priority kwargs) ''MEDIUM'')
              (dict_get (ctk_assignee_email kwargs) [])
              (ctk_due_date kwargs))"

record task_kwargs =
  tkw_title :: "string option"
  tkw_description :: "string option"
  tkw_status :: "string option"
  tkw_priority :: "string option"
  tkw_assignee_email :: "string option"
  tkw_due_date :: "int option"

definition set_task_attrs :: "task_kwargs \<Rightarrow> task \<Rightarrow> task" where
  "set_task_attrs kw t =
     t\<lparr>task_title := (case tkw_title kw of None \<Rightarrow> task_title t | Some v \<Rightarrow> v),
       task_description := (case tkw_description kw of None \<Rightarrow> task_description t | Some v \<Rightarrow> v),
       task_status := (case tkw_status kw of None \<Rightarrow> task_status t | Some v \<Rightarrow> v),
       task_priority := (case tkw_priority kw of None \<Rightarrow> task_priority t | Some v \<Rightarrow> v),
       task_assignee_email :=
         (case tkw_assignee_email kw of None \<Rightarrow> task_assignee_email t | Some v \<Rightarrow> v),
       task_due_date := (case tkw_due_date kw of None \<Rightarrow> task_due_date t | Some v \<Rightarrow> Some v)\<rparr>"

text \<open>\<^verbatim>\<open>UpdateTaskMutation.mutate\<close>\<close>

definition UpdateTaskMutation_mutate ::
  "('s \<Rightarrow> string \<Rightarrow> exn + task) \<Rightarrow> ('s \<Rightarrow> task \<Rightarrow> exn + task \<times> 's)
   \<Rightarrow> 's \<Rightarrow> request \<Rightarrow> string \<Rightarrow> task_kwargs \<Rightarrow> exn + task payload \<times> 's" where
  "UpdateTaskMutation_mutate get save st info ident kwargs =
     mutation_result (Some (TaskModel, ''Task not found'')) st
       (case get st ident of
          Inl e \<Rightarrow> Inl e
        | Inr task \<Rightarrow> save st (set_task_attrs kwargs task))"

text \<open>\<^verbatim>\<open>AddTaskCommentMutation.mutate\<close>\<close>

definition AddTaskCommentMutation_mutate ::
  "('s \<Rightarrow> string \<Rightarrow> exn + task) \<Rightarrow> ('s \<Rightarrow> task_comment \<Rightarrow> exn + task_comment \<times> 's)
   \<Rightarrow> 's \<Rightarrow> request \<Rightarrow> string \<Rightarrow> string \<Rightarrow> string \<Rightarrow> exn + task_comment payload \<times> 's" where
  "AddTaskCommentMutation_mutate get create st info task_ident content author_email =
     mutation_result (Some (TaskModel, ''Task not found'')) st
       (case get st task_ident of
          Inl e \<Rightarrow> Inl e
        | Inr task \<Rightarrow>
            create st
              \<lparr>comment_id = 0, comment_task = task, comment_content = content,
               comment_author_email = author_email\<rparr>)"

section \<open>Derived project figures\<close>

text \<open>
  A Python number is an \<^verbatim>\<open>int\<close> or a \<^verbatim>\<open>float\<close>. A finite float is the rational it denotes.
  The float operations are those of IEEE 754 binary64 with rounding to nearest, ties to
  even: the exact result, rounded to 53 significant bits. (The exponent range is not
  bounded here; the quotients formed below lie between 0 and 100.)
\<close>

datatype pynum = PyInt int | PyFloat rat

function bit_length :: "int \<Rightarrow> int" where
  "bit_length n = (if n \<le> 0 then 0 else bit_length (n div 2) + 1)"
  by pat_completeness auto
termination
  by (relation "measure nat") auto

declare bit_length.simps [simp del]

definition pow2 :: "int \<Rightarrow> rat" where
  "pow2 k = (if 0 \<le> k then 2 ^ nat k else 1 / 2 ^ nat (- k))"

text \<open>The exponent \<open>e\<close> with \<open>2 ^ e \<le> q < 2 ^ (e + 1)\<close>, for positive \<open>q\<close>.\<close>

definition floor_log2 :: "rat \<Rightarrow> int" where
  "floor_log2 q =
     (let k = bit_length (fst (quotient_of q)) - bit_length (snd (quotient_of q))
      in if pow2 k \<le> q then k else k - 1)"

definition round_half_even :: "rat \<Rightarrow> int" where
  "round_half_even q =
     (let f = \<lfloor>q\<rfloor>; r = q - of_int f
      in if r < 1 / 2 then f else if 1 / 2 < r then f + 1 else if even f then f else f + 1)"

definition round_to_double :: "rat \<Rightarrow> rat" where
  "round_to_double q =
     (if q = 0 then 0
      else let e = floor_log2 \<bar>q\<bar> - 52
           in sgn q * of_int (round_half_even (\<bar>q\<bar> / pow2 e)) * pow2 e)"

text \<open>\<^verbatim>\<open>a / b\<close> on two ints (correctly rounded), for \<open>b \<noteq> 0\<close>.\<close>

definition int_truediv :: "int \<Rightarrow> int \<Rightarrow> rat" where
  "int_truediv a b = round_to_double (of_int a / of_int b)"

text \<open>\<^verbatim>\<open>x * y\<close> on floats.\<close>

definition float_mul :: "rat \<Rightarrow> rat \<Rightarrow> rat" where
  "float_mul x y = round_to_double (x * y)"

text \<open>
  \<^verbatim>\<open>round(x, ndigits)\<close> on a float, as CPython computes it: the exact value of \<open>x\<close> is
  rounded to \<open>ndigits\<close> decimals, ties to even, and the float nearest to that decimal is
  returned.
\<close>

definition float_round :: "rat \<Rightarrow> nat \<Rightarrow> rat" where
  "float_round x ndigits =
     round_to_double (of_int (round_half_even (x * 10 ^ ndigits)) / 10 ^ ndigits)"

text \<open>\<^verbatim>\<open>Project.task_count\<close>: \<^verbatim>\<open>self.tasks.count()\<close>, the tasks whose project is this row.\<close>

definition task_count :: "store \<Rightarrow> project \<Rightarrow> int" where
  "task_count st self = int (length (filter (\<lambda>t. proj_id (task_project t) = proj_id self) (tasks st)))"

text \<open>\<^verbatim>\<open>Project.completed_tasks\<close>: \<^verbatim>\<open>self.tasks.filter(status='DONE').count()\<close>\<close>

definition completed_tasks :: "store \<Rightarrow> project \<Rightarrow> int" where
  "completed_tasks st self =
     int (length (filter (\<lambda>t. task_status t = ''DONE'')
       (filter (\<lambda>t. proj_id (task_project t) = proj_id self) (tasks st))))"

text \<open>\<^verbatim>\<open>Project.completion_rate\<close>\<close>

definition completion_rate :: "store \<Rightarrow> project \<Rightarrow> pynum" where
  "completion_rate st self =
     (let total = task_count st self
      in if total = 0 then PyInt 0
         else PyFloat (float_round (float_mul (int_truediv (completed_tasks st self) total) 100) 2))"

section \<open>A sample store\<close>

text \<open>
  Two organizations, the second one inactive, a project in each, four tasks in the first
  project, one of them done, one task in the second, and a comment on a task of each.
  Projects and tasks stand newest first.
\<close>

definition org_a :: organization where
  "org_a = \<lparr>org_id = 1, org_name = ''Acme'', org_slug = ''acme'',
            org_contact_email = ''a@example.com'', org_description = [], org_is_active = True\<rparr>"

definition org_b :: organization where
  "org_b = \<lparr>org_id = 2, org_name = ''Beta'', org_slug = ''beta'',
            org_contact_email = ''b@example.com'', org_description = [], org_is_active = False\<rparr>"

definition project_a :: project where
  "project_a = \<lparr>proj_id = 1, proj_organization = org_a, proj_name = ''Website'',
                proj_description = [], proj_status = ''ACTIVE'', proj_due_date = None\<rparr>"

definition project_b :: project where
  "project_b = \<lparr>proj_id = 2, proj_organization = org_b, proj_name = ''Backend'',
                proj_description = [], proj_status = ''ACTIVE'', proj_due_date = None\<rparr>"

definition sample_task :: "int \<Rightarrow> project \<Rightarrow> string \<Rightarrow> task" where
  "sample_task n p status =
     \<lparr>task_id = n, task_project = p, task_title = ''Task'', task_description = [],
      task_status = status, task_priority = ''MEDIUM'', task_assignee_email = [],
      task_due_date = None\<rparr>"

definition sample_comment :: "int \<Rightarrow> task \<Rightarrow> task_comment" where
  "sample_comment n t =
     \<lparr>comment_id = n, comment_task = t, comment_content = ''Looks good'',
      comment_author_email = ''c@example.com''\<rparr>"

definition sample_store :: store where
  "sample_store =
     \<lparr>organizations = [org_a, org_b],
      projects = [project_b, project_a],
      tasks = [sample_task 5 project_b ''TODO'', sample_task 4 project_a ''TODO'',
               sample_task 3 project_a ''IN_PROGRESS'', sample_task 2 project_a ''TODO'',
               sample_task 1 project_a ''DONE''],
      task_comments = [sample_comment 1 (sample_task 1 project_a ''DONE''),
                       sample_comment 2 (sample_task 5 project_b ''TODO'')]\<rparr>"

definition empty_store :: store where
  "empty_store = \<lparr>organizations = [], projects = [], tasks = [], task_comments = []\<rparr>"

text \<open>A request with the given headers, query parameters, path and tenant slot.\<close>

definition sample_request ::
  "(string \<times> string) list \<Rightarrow> (string \<times> string) list \<Rightarrow> string \<Rightarrow> organization option option
   \<Rightarrow> request" where
  "sample_request headers query p slot =
     \<lparr>req_META = map_of headers, req_GET = map_of query, req_path = p, req_organization = slot\<rparr>"

section \<open>Theorems\<close>

subsection \<open>Evaluations shared by the examples\<close>

lemma py_int_1: "py_int ''1'' = Some 1"
  by code_simp

lemma py_int_2: "py_int ''2'' = Some 2"
  by code_simp

lemma py_int_99: "py_int ''99'' = Some 99"
  by code_simp

lemma pk_value_1: "pk_value ''1'' = Inr 1"
  by (simp add: pk_value_def py_int_1)

lemma pk_value_2: "pk_value ''2'' = Inr 2"
  by (simp add: pk_value_def py_int_2)

lemma pk_value_99: "pk_value ''99'' = Inr 99"
  by (simp add: pk_value_def py_int_99)

lemma context_organization_sample:
  "context_organization (sample_request headers query p slot) =
     (case slot of None \<Rightarrow> None | Some v \<Rightarrow> v)"
  by (simp add: context_organization_def sample_request_def)

text \<open>The float model on a quotient that is not exact: \<^verbatim>\<open>1 / 3\<close> and \<^verbatim>\<open>round(1 / 3 * 100, 2)\<close>.\<close>

lemma one_third: "int_truediv 1 3 = 6004799503160661 / 18014398509481984"
  by code_simp

lemma one_third_rate:
  "float_round (float_mul (int_truediv 1 3) 100) 2 = 2345390243441541 / 70368744177664"
  by code_simp

subsection \<open>Request Gate\<close>

text \<open>
  C5. A request whose path is under no exempt prefix but under \<^verbatim>\<open>/api/\<close>, and whose resolved
  tenant is absent, is answered with status 400 and the body
  \<^verbatim>\<open>{error: 'Organization context required', message: ...}\<close>, the message naming the
  \<^verbatim>\<open>X-Organization-Slug\<close> header and the \<^verbatim>\<open>organization_slug\<close> parameter; the answer is the
  same for every handler, which is therefore not consulted. A request under an exempt prefix or
  outside \<^verbatim>\<open>/api/\<close> goes to the handler whatever its tenant.
\<close>

theorem request_gate:
  "(\<not> (\<exists>exempt_path \<in> set EXEMPT_PATHS. startswith (req_path request) exempt_path) \<and>
      startswith (req_path request) ''/api/'' \<and>
      (req_organization request = None \<or> req_organization request = Some None) \<longrightarrow>
      RequireOrganizationMiddleware_process_request request = Some gate_response \<and>
      (\<forall>get_response. RequireOrganizationMiddleware_call get_response request = gate_response) \<and>
      resp_status gate_response = 400 \<and>
      map_of (resp_body gate_response) ''error'' = Some ''Organization context required'' \<and>
      map_of (resp_body gate_response) ''message'' = Some
        ''Please provide organization via X-Organization-Slug header or organization_slug parameter'')
   \<and> ((\<exists>exempt_path \<in> set EXEMPT_PATHS. startswith (req_path request) exempt_path) \<or>
      \<not> startswith (req_path request) ''/api/'' \<longrightarrow>
      RequireOrganizationMiddleware_process_request request = None \<and>
      (\<forall>get_response. RequireOrganizationMiddleware_call get_response request = get_response request))"
  unfolding RequireOrganizationMiddleware_call_def RequireOrganizationMiddleware_process_request_def
  by (simp add: gate_response_def JsonResponse_def)

theorem request_gate_witness:
  "RequireOrganizationMiddleware_process_request
     \<lparr>req_META = Map.empty, req_GET = Map.empty, req_path = ''/api/projects/'',
      req_organization = Some None\<rparr> = Some gate_response
   \<and> RequireOrganizationMiddleware_process_request
     \<lparr>req_META = Map.empty, req_GET = Map.empty, req_path = ''/api/organizations/7/'',
      req_organization = Some None\<rparr> = None
   \<and> RequireOrganizationMiddleware_process_request
     \<lparr>req_META = Map.empty, req_GET = Map.empty, req_path = ''/static/app.js'',
      req_organization = None\<rparr> = None"
  using
    request_gate [of "\<lparr>req_META = Map.empty, req_GET = Map.empty, req_path = ''/api/projects/'',
      req_organization = Some None\<rparr>"]
    request_gate [of "\<lparr>req_META = Map.empty, req_GET = Map.empty,
      req_path = ''/api/organizations/7/'', req_organization = Some None\<rparr>"]
    request_gate [of "\<lparr>req_META = Map.empty, req_GET = Map.empty, req_path = ''/static/app.js'',
      req_organization = None\<rparr>"]
  by (simp add: EXEMPT_PATHS_def startswith_def)

subsection \<open>Tenant Resolver\<close>

lemma resolve_slug_miss:
  assumes "fst ids = Some slug" "slug \<noteq> []"
    and "\<forall>org \<in> set (organizations st). org_slug org = slug \<longrightarrow> \<not> org_is_active org"
  shows "resolve_organization_ctx st ids = Inr None"
  using assms
  by (auto simp: resolve_organization_ctx_def Organization_get_slug_active_def filter_empty_conv)

lemma resolve_id_miss:
  assumes "\<not> truthy (fst ids)" "snd ids = Some ident" "ident \<noteq> []" "pk_value ident = Inr n"
    and "\<forall>org \<in> set (organizations st). org_id org = n \<longrightarrow> \<not> org_is_active org"
  shows "resolve_organization_ctx st ids = Inr None"
  using assms
  by (auto simp: resolve_organization_ctx_def Organization_get_id_active_def filter_empty_conv)

lemma objects_get_not_other_DoesNotExist:
  "objects_get m xs = Inl (DoesNotExist m') \<Longrightarrow> m' = m"
  by (cases "(m, xs)" rule: objects_get.cases) auto

lemma get_slug_DoesNotExist:
  "Organization_get_slug_active st s = Inl (DoesNotExist m) \<Longrightarrow> m = OrganizationModel"
  by (auto simp: Organization_get_slug_active_def dest: objects_get_not_other_DoesNotExist)

lemma pk_value_not_DoesNotExist: "pk_value s \<noteq> Inl (DoesNotExist m)"
  by (auto simp: pk_value_def pk_ValueError_def split: option.splits)

lemma get_id_DoesNotExist:
  "Organization_get_id_active st s = Inl (DoesNotExist m) \<Longrightarrow> m = OrganizationModel"
  by (cases "pk_value s")
     (auto simp: Organization_get_id_active_def pk_value_not_DoesNotExist
       dest: objects_get_not_other_DoesNotExist)

lemma resolve_never_DoesNotExist:
  "resolve_organization_ctx st ids \<noteq> Inl (DoesNotExist m)"
proof (cases "truthy (fst ids)")
  case True
  then show ?thesis
    by (cases "Organization_get_slug_active st (the (fst ids))")
       (auto simp: resolve_organization_ctx_def dest: get_slug_DoesNotExist)
next
  case False
  then show ?thesis
    by (cases "Organization_get_id_active st (the (snd ids))")
       (auto simp: resolve_organization_ctx_def dest: get_id_DoesNotExist)
qed

text \<open>
  The part of the resolver that works. An organization with \<^verbatim>\<open>is_active = False\<close> resolves to
  no tenant, whether the request carries its slug or its id (slugs and ids being unique in
  the store, and the id text converting to the id); whenever a slug, or an id text that
  converts to an id, matches no active organization, \<^verbatim>\<open>request.organization\<close> is set to
  \<^verbatim>\<open>None\<close>; and no \<^verbatim>\<open>DoesNotExist\<close> ever leaves the middleware.
\<close>

lemma tenant_resolver_miss:
  "(org \<in> set (organizations st) \<and> \<not> org_is_active org \<and>
      distinct (map org_slug (organizations st)) \<and>
      fst (tenant_identifiers request) = Some (org_slug org) \<and> org_slug org \<noteq> [] \<longrightarrow>
      OrganizationMiddleware_process_request st request =
        Inr (request\<lparr>req_organization := Some None\<rparr>))
   \<and> (org \<in> set (organizations st) \<and> \<not> org_is_active org \<and>
      distinct (map org_id (organizations st)) \<and>
      \<not> truthy (fst (tenant_identifiers request)) \<and>
      snd (tenant_identifiers request) = Some ident \<and> ident \<noteq> [] \<and>
      pk_value ident = Inr (org_id org) \<longrightarrow>
      OrganizationMiddleware_process_request st request =
        Inr (request\<lparr>req_organization := Some None\<rparr>))
   \<and> (fst (tenant_identifiers request) = Some slug \<and> slug \<noteq> [] \<and>
      (\<forall>row \<in> set (organizations st). org_slug row = slug \<longrightarrow> \<not> org_is_active row) \<longrightarrow>
      OrganizationMiddleware_process_request st request =
        Inr (request\<lparr>req_organization := Some None\<rparr>))
   \<and> (\<not> truthy (fst (tenant_identifiers request)) \<and>
      snd (tenant_identifiers request) = Some ident \<and> ident \<noteq> [] \<and> pk_value ident = Inr n \<and>
      (\<forall>row \<in> set (organizations st). org_id row = n \<longrightarrow> \<not> org_is_active row) \<longrightarrow>
      OrganizationMiddleware_process_request st request =
        Inr (request\<lparr>req_organization := Some None\<rparr>))
   \<and> (\<forall>m. OrganizationMiddleware_process_request st request \<noteq> Inl (DoesNotExist m))"
proof (intro conjI impI allI)
  assume a: "org \<in> set (organizations st) \<and> \<not> org_is_active org \<and>
      distinct (map org_slug (organizations st)) \<and>
      fst (tenant_identifiers request) = Some (org_slug org) \<and> org_slug org \<noteq> []"
  then have "\<forall>row \<in> set (organizations st). org_slug row = org_slug org \<longrightarrow> \<not> org_is_active row"
    by (auto simp: distinct_map inj_on_def)
  with a have "resolve_organization_ctx st (tenant_identifiers request) = Inr None"
    by (intro resolve_slug_miss) auto
  then show "OrganizationMiddleware_process_request st request =
        Inr (request\<lparr>req_organization := Some None\<rparr>)"
    by (simp add: OrganizationMiddleware_process_request_def)
next
  assume a: "org \<in> set (organizations st) \<and> \<not> org_is_active org \<and>
      distinct (map org_id (organizations st)) \<and>
      \<not> truthy (fst (tenant_identifiers request)) \<and>
      snd (tenant_identifiers request) = Some ident \<and> ident \<noteq> [] \<and>
      pk_value ident = Inr (org_id org)"
  then have "\<forall>row \<in> set (organizations st). org_id row = org_id org \<longrightarrow> \<not> org_is_active row"
    by (auto simp: distinct_map inj_on_def)
  with a have "resolve_organization_ctx st (tenant_identifiers request) = Inr None"
    by (intro resolve_id_miss[where ident = ident and n = "org_id org"]) auto
  then show "OrganizationMiddleware_process_request st request =
        Inr (request\<lparr>req_organization := Some None\<rparr>)"
    by (simp add: OrganizationMiddleware_process_request_def)
next
  assume a: "fst (tenant_identifiers request) = Some slug \<and> slug \<noteq> [] \<and>
      (\<forall>row \<in> set (organizations st). org_slug row = slug \<longrightarrow> \<not> org_is_active row)"
  then have "resolve_organization_ctx st (tenant_identifiers request) = Inr None"
    by (intro resolve_slug_miss[where slug = slug]) auto
  then show "OrganizationMiddleware_process_request st request =
        Inr (request\<lparr>req_organization := Some None\<rparr>)"
    by (simp add: OrganizationMiddleware_process_request_def)
next
  assume a: "\<not> truthy (fst (tenant_identifiers request)) \<and>
      snd (tenant_identifiers request) = Some ident \<and> ident \<noteq> [] \<and> pk_value ident = Inr n \<and>
      (\<forall>row \<in> set (organizations st). org_id row = n \<longrightarrow> \<not> org_is_active row)"
  then have "resolve_organization_ctx st (tenant_identifiers request) = Inr None"
    by (intro resolve_id_miss[where ident = ident and n = n]) auto
  then show "OrganizationMiddleware_process_request st request =
        Inr (request\<lparr>req_organization := Some None\<rparr>)"
    by (simp add: OrganizationMiddleware_process_request_def)
next
  fix m
  show "OrganizationMiddleware_process_request st request \<noteq> Inl (DoesNotExist m)"
    using resolve_never_DoesNotExist[of st "tenant_identifiers request" m]
    by (auto simp: OrganizationMiddleware_process_request_def split: sum.splits)
qed

lemma tenant_resolver_miss_example:
  "OrganizationMiddleware_process_request sample_store
      (sample_request [(''HTTP_X_ORGANIZATION_SLUG'', ''beta'')] [] ''/api/projects/'' None)
     = Inr (sample_request [(''HTTP_X_ORGANIZATION_SLUG'', ''beta'')] [] ''/api/projects/'' (Some None))
   \<and> OrganizationMiddleware_process_request sample_store
      (sample_request [] [(''organization_id'', ''2'')] ''/api/projects/'' None)
     = Inr (sample_request [] [(''organization_id'', ''2'')] ''/api/projects/'' (Some None))"
  using
    tenant_resolver_miss [of org_b sample_store
      "sample_request [(''HTTP_X_ORGANIZATION_SLUG'', ''beta'')] [] ''/api/projects/'' None"
      "''2''" "''beta''" 2]
    tenant_resolver_miss [of org_b sample_store
      "sample_request [] [(''organization_id'', ''2'')] ''/api/projects/'' None"
      "''2''" "''beta''" 2]
    pk_value_2
  by (simp add: sample_store_def sample_request_def org_a_def org_b_def tenant_identifiers_def)

text \<open>
  An id text that \<^verbatim>\<open>int()\<close> refuses matches no organization, and yet it does not end as a
  miss: the \<^verbatim>\<open>ValueError\<close> raised while the query is built is no \<^verbatim>\<open>DoesNotExist\<close> and leaves
  the middleware. The same holds of the \<^verbatim>\<open>OverflowError\<close> for an id beyond 64 bits.
\<close>

lemma unconvertible_id_raises:
  assumes "\<not> truthy (fst (tenant_identifiers request))"
    and "snd (tenant_identifiers request) = Some ident" and "ident \<noteq> []"
    and "pk_value ident = Inl e"
  shows "OrganizationMiddleware_process_request st request = Inl e"
  using assms pk_value_not_DoesNotExist [of ident OrganizationModel]
  by (auto simp: OrganizationMiddleware_process_request_def resolve_organization_ctx_def
      Organization_get_id_active_def)

lemma py_int_abc: "py_int ''abc'' = None"
  by code_simp

lemma py_repr_abc: "py_repr ''abc'' = [CHR 0x27] @ ''abc'' @ [CHR 0x27]"
  by code_simp

text \<open>
  C3. The claim that any lookup miss yields \<^verbatim>\<open>None\<close> silently fails on the code: on the
  sample store, a request whose only tenant identifier is the header
  \<^verbatim>\<open>X-Organization-ID: abc\<close>, which is the id of no organization, is not given the tenant
  \<^verbatim>\<open>None\<close>; \<^verbatim>\<open>process_request\<close> raises \<^verbatim>\<open>ValueError\<close>. The id of the inactive organization 2,
  in the same header, does give \<^verbatim>\<open>None\<close>.
\<close>

theorem tenant_resolver_unconvertible_id:
  "OrganizationMiddleware_process_request sample_store
      (sample_request [(''HTTP_X_ORGANIZATION_ID'', ''abc'')] [] ''/api/projects/'' None)
     = Inl (ValueError (''Field '' @ [CHR 0x27] @ ''id'' @ [CHR 0x27]
                        @ '' expected a number but got '' @ [CHR 0x27] @ ''abc'' @ [CHR 0x27]
                        @ ''.''))
   \<and> OrganizationMiddleware_process_request sample_store
      (sample_request [(''HTTP_X_ORGANIZATION_ID'', ''2'')] [] ''/api/projects/'' None)
     = Inr (sample_request [(''HTTP_X_ORGANIZATION_ID'', ''2'')] [] ''/api/projects/'' (Some None))"
proof -
  have v: "pk_value ''abc'' = Inl (pk_ValueError ''abc'')"
    by (simp add: pk_value_def py_int_abc)
  have a: "OrganizationMiddleware_process_request sample_store
      (sample_request [(''HTTP_X_ORGANIZATION_ID'', ''abc'')] [] ''/api/projects/'' None)
     = Inl (pk_ValueError ''abc'')"
    by (rule unconvertible_id_raises [where ident = "''abc''"])
       (simp_all add: tenant_identifiers_def sample_request_def v)
  have b: "OrganizationMiddleware_process_request sample_store
      (sample_request [(''HTTP_X_ORGANIZATION_ID'', ''2'')] [] ''/api/projects/'' None)
     = Inr (sample_request [(''HTTP_X_ORGANIZATION_ID'', ''2'')] [] ''/api/projects/'' (Some None))"
    by (simp add: OrganizationMiddleware_process_request_def resolve_organization_ctx_def
        tenant_identifiers_def sample_request_def Organization_get_id_active_def pk_value_2
        sample_store_def org_a_def org_b_def)
  show ?thesis
    using a b by (simp add: pk_ValueError_def py_repr_abc)
qed

text \<open>
  C6. The Tenant Resolver agrees with the specified order: of the slug header, the id header,
  the slug query parameter and the id query parameter, the first that is present (not empty)
  decides; a slug is looked up by slug and \<^verbatim>\<open>is_active\<close>, an id by id and \<^verbatim>\<open>is_active\<close>, and a
  miss of that one lookup gives no tenant, with no fallback to a later source.
\<close>

theorem resolution_order:
  "OrganizationMiddleware_process_request st request =
     (case spec_tenant_resolver st request of
        Inl e \<Rightarrow> Inl e
      | Inr organization \<Rightarrow> Inr (request\<lparr>req_organization := Some organization\<rparr>))"
  unfolding OrganizationMiddleware_process_request_def spec_tenant_resolver_def
    resolve_organization_ctx_def tenant_identifiers_def spec_sources_def Let_def
  by (cases "req_META request ''HTTP_X_ORGANIZATION_SLUG''";
      cases "req_META request ''HTTP_X_ORGANIZATION_ID''";
      cases "req_GET request ''organization_slug''";
      cases "req_GET request ''organization_id''")
     (auto split: sum.splits)

theorem resolution_order_witness:
  "OrganizationMiddleware_process_request sample_store
      (sample_request [(''HTTP_X_ORGANIZATION_SLUG'', ''acme''), (''HTTP_X_ORGANIZATION_ID'', ''2'')]
         [(''organization_slug'', ''beta'')] ''/api/projects/'' None)
     = Inr (sample_request
         [(''HTTP_X_ORGANIZATION_SLUG'', ''acme''), (''HTTP_X_ORGANIZATION_ID'', ''2'')]
         [(''organization_slug'', ''beta'')] ''/api/projects/'' (Some (Some org_a)))
   \<and> OrganizationMiddleware_process_request sample_store
      (sample_request [(''HTTP_X_ORGANIZATION_SLUG'', ''nobody''), (''HTTP_X_ORGANIZATION_ID'', ''1'')]
         [(''organization_slug'', ''acme'')] ''/api/projects/'' None)
     = Inr (sample_request
         [(''HTTP_X_ORGANIZATION_SLUG'', ''nobody''), (''HTTP_X_ORGANIZATION_ID'', ''1'')]
         [(''organization_slug'', ''acme'')] ''/api/projects/'' (Some None))
   \<and> OrganizationMiddleware_process_request sample_store
      (sample_request [] [(''organization_slug'', ''acme''), (''organization_id'', ''2'')]
         ''/api/projects/'' None)
     = Inr (sample_request [] [(''organization_slug'', ''acme''), (''organization_id'', ''2'')]
         ''/api/projects/'' (Some (Some org_a)))"
  using
    resolution_order [of sample_store
      "sample_request [(''HTTP_X_ORGANIZATION_SLUG'', ''acme''), (''HTTP_X_ORGANIZATION_ID'', ''2'')]
         [(''organization_slug'', ''beta'')] ''/api/projects/'' None"]
    resolution_order [of sample_store
      "sample_request [(''HTTP_X_ORGANIZATION_SLUG'', ''nobody''), (''HTTP_X_ORGANIZATION_ID'', ''1'')]
         [(''organization_slug'', ''acme'')] ''/api/projects/'' None"]
    resolution_order [of sample_store
      "sample_request [] [(''organization_slug'', ''acme''), (''organization_id'', ''2'')]
         ''/api/projects/'' None"]
  by (simp add: spec_tenant_resolver_def spec_sources_def sample_request_def sample_store_def
      Organization_get_slug_active_def org_a_def org_b_def)

subsection \<open>Authorization in the query handlers\<close>

text \<open>
  C2. Let an entity be found in the store and let \<open>A\<close> be the organization at the root of its
  ownership chain (the project's organization; the task's project's organization; the
  comment's task's project's organization). Under a tenant whose id differs from that of
  \<open>A\<close> the query handler raises \<^verbatim>\<open>PermissionDenied\<close>; under a tenant with the id of \<open>A\<close> it
  returns the entity; with no tenant it returns the entity.
\<close>

theorem scope_authorize:
  "(Project_get_pk st ident = Inr p \<longrightarrow>
      (context_organization info = Some b \<and> org_id b \<noteq> org_id (proj_organization p) \<longrightarrow>
         resolve_project st info ident = Inl (PermissionDenied ''Access denied to this project'')) \<and>
      (context_organization info = Some a \<and> org_id a = org_id (proj_organization p) \<longrightarrow>
         resolve_project st info ident = Inr (Some p)) \<and>
      (context_organization info = None \<longrightarrow> resolve_project st info ident = Inr (Some p)))
   \<and> (Task_get_pk st ident = Inr t \<longrightarrow>
      (context_organization info = Some b \<and>
         org_id b \<noteq> org_id (proj_organization (task_project t)) \<longrightarrow>
         resolve_task st info ident = Inl (PermissionDenied ''Access denied to this task'')) \<and>
      (context_organization info = Some a \<and>
         org_id a = org_id (proj_organization (task_project t)) \<longrightarrow>
         resolve_task st info ident = Inr (Some t)) \<and>
      (context_organization info = None \<longrightarrow> resolve_task st info ident = Inr (Some t)))
   \<and> (TaskComment_get_pk st ident = Inr c \<longrightarrow>
      (context_organization info = Some b \<and>
         org_id b \<noteq> org_id (proj_organization (task_project (comment_task c))) \<longrightarrow>
         resolve_task_comment st info ident =
           Inl (PermissionDenied ''Access denied to this comment'')) \<and>
      (context_organization info = Some a \<and>
         org_id a = org_id (proj_organization (task_project (comment_task c))) \<longrightarrow>
         resolve_task_comment st info ident = Inr (Some c)) \<and>
      (context_organization info = None \<longrightarrow> resolve_task_comment st info ident = Inr (Some c)))"
  by (simp add: resolve_project_def resolve_task_def resolve_task_comment_def organization_eq_def)

theorem scope_authorize_witness:
  "resolve_project sample_store (sample_request [] [] ''/graphql/'' (Some (Some org_b))) ''1''
     = Inl (PermissionDenied ''Access denied to this project'')
   \<and> resolve_project sample_store (sample_request [] [] ''/graphql/'' (Some (Some org_a))) ''1''
     = Inr (Some project_a)
   \<and> resolve_project sample_store (sample_request [] [] ''/graphql/'' (Some None)) ''1''
     = Inr (Some project_a)
   \<and> resolve_task sample_store (sample_request [] [] ''/graphql/'' (Some (Some org_b))) ''1''
     = Inl (PermissionDenied ''Access denied to this task'')
   \<and> resolve_task sample_store (sample_request [] [] ''/graphql/'' (Some (Some org_a))) ''1''
     = Inr (Some (sample_task 1 project_a ''DONE''))
   \<and> resolve_task sample_store (sample_request [] [] ''/graphql/'' None) ''1''
     = Inr (Some (sample_task 1 project_a ''DONE''))
   \<and> resolve_task_comment sample_store (sample_request [] [] ''/graphql/'' (Some (Some org_b))) ''1''
     = Inl (PermissionDenied ''Access denied to this comment'')
   \<and> resolve_task_comment sample_store (sample_request [] [] ''/graphql/'' (Some (Some org_a))) ''1''
     = Inr (Some (sample_comment 1 (sample_task 1 project_a ''DONE'')))
   \<and> resolve_task_comment sample_store (sample_request [] [] ''/graphql/'' (Some None)) ''1''
     = Inr (Some (sample_comment 1 (sample_task 1 project_a ''DONE'')))"
proof -
  have gp: "Project_get_pk sample_store ''1'' = Inr project_a"
    by (simp add: Project_get_pk_def pk_value_1 sample_store_def project_a_def project_b_def)
  have gt: "Task_get_pk sample_store ''1'' = Inr (sample_task 1 project_a ''DONE'')"
    by (simp add: Task_get_pk_def pk_value_1 sample_store_def sample_task_def)
  have gc: "TaskComment_get_pk sample_store ''1'' =
      Inr (sample_comment 1 (sample_task 1 project_a ''DONE''))"
    by (simp add: TaskComment_get_pk_def pk_value_1 sample_store_def sample_comment_def)
  have ids: "org_id org_b \<noteq> org_id org_a" "proj_organization project_a = org_a"
    "task_project (sample_task 1 project_a ''DONE'') = project_a"
    "comment_task (sample_comment 1 (sample_task 1 project_a ''DONE'')) = sample_task 1 project_a ''DONE''"
    by (simp_all add: org_a_def org_b_def project_a_def sample_task_def sample_comment_def)
  show ?thesis
    using
      scope_authorize [of sample_store "''1''" project_a
        "sample_request [] [] ''/graphql/'' (Some (Some org_b))" org_b org_a
        "sample_task 1 project_a ''DONE''" "sample_comment 1 (sample_task 1 project_a ''DONE'')"]
      scope_authorize [of sample_store "''1''" project_a
        "sample_request [] [] ''/graphql/'' (Some (Some org_a))" org_b org_a
        "sample_task 1 project_a ''DONE''" "sample_comment 1 (sample_task 1 project_a ''DONE'')"]
      scope_authorize [of sample_store "''1''" project_a
        "sample_request [] [] ''/graphql/'' (Some None)" org_b org_a
        "sample_task 1 project_a ''DONE''" "sample_comment 1 (sample_task 1 project_a ''DONE'')"]
      scope_authorize [of sample_store "''1''" project_a
        "sample_request [] [] ''/graphql/'' None" org_b org_a
        "sample_task 1 project_a ''DONE''" "sample_comment 1 (sample_task 1 project_a ''DONE'')"]
    by (simp add: gp gt gc ids context_organization_sample)
qed

subsection \<open>Collection queries\<close>

text \<open>
  C10. \<^verbatim>\<open>resolve_projects\<close> and \<^verbatim>\<open>resolve_tasks\<close> return all the rows of the store, those of
  every organization, and the same rows for any two request contexts, whatever tenant
  (or none) each carries.
\<close>

theorem collection_queries_ignore_tenant:
  "resolve_projects st info = projects st \<and> resolve_projects st info = resolve_projects st info'
   \<and> resolve_tasks st info = tasks st \<and> resolve_tasks st info = resolve_tasks st info'"
  by (simp add: resolve_projects_def resolve_tasks_def)

theorem collection_queries_ignore_tenant_witness:
  "resolve_projects sample_store (sample_request [] [] ''/graphql/'' (Some (Some org_a)))
     = [project_b, project_a]
   \<and> resolve_projects sample_store (sample_request [] [] ''/graphql/'' (Some (Some org_a)))
     = resolve_projects sample_store (sample_request [] [] ''/graphql/'' (Some None))
   \<and> proj_organization project_b = org_b
   \<and> length (resolve_tasks sample_store (sample_request [] [] ''/graphql/'' (Some (Some org_a)))) = 5
   \<and> resolve_tasks sample_store (sample_request [] [] ''/graphql/'' (Some (Some org_a)))
     = resolve_tasks sample_store (sample_request [] [] ''/graphql/'' None)"
  using
    collection_queries_ignore_tenant [of sample_store
      "sample_request [] [] ''/graphql/'' (Some (Some org_a))"
      "sample_request [] [] ''/graphql/'' (Some None)"]
    collection_queries_ignore_tenant [of sample_store
      "sample_request [] [] ''/graphql/'' (Some (Some org_a))"
      "sample_request [] [] ''/graphql/'' None"]
  by (simp add: resolve_projects_def resolve_tasks_def sample_store_def project_b_def)

subsection \<open>Filtering by organization\<close>

lemma filter_by_organization_Project:
  "filter_by_organization (ProjectQS ps) organization =
     Inr (ProjectQS (filter (\<lambda>p. org_id (proj_organization p) = org_id organization) ps))"
  by (simp add: filter_by_organization_def hasattr_def organization_eq_def)

lemma filter_by_organization_Task:
  "filter_by_organization (TaskQS ts) organization = Inl (unresolved_keyword ''organization'')"
  by (simp add: filter_by_organization_def hasattr_def)

lemma filter_by_organization_TaskComment:
  "filter_by_organization (TaskCommentQS cs) organization = Inl (unresolved_keyword ''organization'')"
  by (simp add: filter_by_organization_def hasattr_def)

lemma filter_by_organization_Organization:
  "filter_by_organization (OrganizationQS os) organization = Inr (OrganizationQS [])"
  by (simp add: filter_by_organization_def hasattr_def)

text \<open>
  C1. On the tasks of the sample store, which span two organizations, and tenant \<open>org_a\<close>,
  \<^verbatim>\<open>filter_by_organization\<close> does not return the tasks of \<open>org_a\<close>: \<^verbatim>\<open>Task\<close> has a property
  named \<^verbatim>\<open>organization\<close>, so the first branch is taken and \<^verbatim>\<open>filter(organization=..)\<close> raises
  \<^verbatim>\<open>FieldError\<close>. The branch written for tasks, \<^verbatim>\<open>filter(project__organization=..)\<close>, would
  have returned the four tasks of \<open>org_a\<close>.
\<close>

theorem filter_by_organization_tasks_raise:
  "filter_by_organization (TaskQS (tasks sample_store)) org_a
     = Inl (FieldError (''Cannot resolve keyword '' @ [CHR 0x27] @ ''organization'' @ [CHR 0x27]
                        @ '' into field.''))
   \<and> filter_project__organization (TaskQS (tasks sample_store)) org_a
     = Inr (TaskQS [sample_task 4 project_a ''TODO'', sample_task 3 project_a ''IN_PROGRESS'',
                    sample_task 2 project_a ''TODO'', sample_task 1 project_a ''DONE''])"
  by (simp add: filter_by_organization_Task unresolved_keyword_def sample_store_def
      organization_eq_def sample_task_def project_a_def project_b_def org_a_def org_b_def)

subsection \<open>Completion rate\<close>

lemma one_of_four: "float_round (float_mul (int_truediv 1 4) 100) 2 = 25"
  by code_simp

text \<open>
  C8. \<^verbatim>\<open>completion_rate\<close> is \<open>0\<close> for a project without tasks; otherwise it is
  \<^verbatim>\<open>round(completed_tasks / task_count * 100, 2)\<close>, computed in floats; for a project with four
  tasks of which one is done it is \<open>25.0\<close>.
\<close>

theorem completion_rate_value:
  "(task_count st p = 0 \<longrightarrow> completion_rate st p = PyInt 0)
   \<and> (task_count st p \<noteq> 0 \<longrightarrow>
        completion_rate st p =
          PyFloat (float_round (float_mul (int_truediv (completed_tasks st p) (task_count st p)) 100) 2))
   \<and> (task_count st p = 4 \<and> completed_tasks st p = 1 \<longrightarrow> completion_rate st p = PyFloat 25)"
  by (simp add: completion_rate_def one_of_four)

theorem completion_rate_value_witness:
  "task_count sample_store project_a = 4 \<and> completed_tasks sample_store project_a = 1
   \<and> completion_rate sample_store project_a = PyFloat 25
   \<and> task_count empty_store project_a = 0
   \<and> completion_rate empty_store project_a = PyInt 0"
proof -
  have n: "task_count sample_store project_a = 4" "completed_tasks sample_store project_a = 1"
    "task_count empty_store project_a = 0"
    by (simp_all add: task_count_def completed_tasks_def sample_store_def empty_store_def
        sample_task_def project_a_def project_b_def)
  show ?thesis
    using completion_rate_value [of sample_store project_a]
      completion_rate_value [of empty_store project_a]
    by (simp add: n one_of_four)
qed

subsection \<open>Slug of a new organization\<close>

lemma slugify_My_Org: "slugify ''My Org'' = ''my-org''"
  by code_simp

lemma insert_organization_slug:
  "insert_organization st org = Inr (row, st') \<Longrightarrow>
     org_slug row = org_slug org \<and> row \<in> set (organizations st')"
  by (auto simp: insert_organization_def Let_def split: if_splits)

lemma insert_organization_succeeds:
  "\<not> list_ex (\<lambda>row. org_slug row = org_slug org) (organizations st) \<Longrightarrow>
     \<exists>row st'. insert_organization st org = Inr (row, st')"
  by (simp add: insert_organization_def Let_def)

text \<open>
  C9. Creating an organization named \<^verbatim>\<open>My Org\<close> with no slug stores it with the slug
  \<^verbatim>\<open>my-org\<close>, and the creation succeeds when no row has that slug yet; whenever the slug is
  absent (\<^verbatim>\<open>None\<close> or empty) the stored slug is \<^verbatim>\<open>slugify(name)\<close>; an explicit, non-empty slug
  is stored as given.
\<close>

theorem organization_slug_on_create:
  "(Organization_objects_create insert_organization st ''My Org'' email description None
       = Inr (org, st') \<longrightarrow>
      org_slug org = ''my-org'' \<and> org \<in> set (organizations st'))
   \<and> (\<not> list_ex (\<lambda>row. org_slug row = ''my-org'') (organizations st) \<longrightarrow>
      (\<exists>row st''. Organization_objects_create insert_organization st ''My Org'' email description
                    None = Inr (row, st'')))
   \<and> (\<not> truthy slug \<and>
      Organization_objects_create insert_organization st name email description slug
        = Inr (org, st') \<longrightarrow>
      org_slug org = slugify name \<and> org \<in> set (organizations st'))
   \<and> (s \<noteq> [] \<and>
      Organization_objects_create insert_organization st name email description (Some s)
        = Inr (org, st') \<longrightarrow>
      org_slug org = s \<and> org \<in> set (organizations st'))"
proof (intro conjI impI)
  assume "Organization_objects_create insert_organization st ''My Org'' email description None
       = Inr (org, st')"
  then show "org_slug org = ''my-org''" "org \<in> set (organizations st')"
    by (auto simp: Organization_objects_create_def Organization_save_def slugify_My_Org
        dest: insert_organization_slug)
next
  assume "\<not> list_ex (\<lambda>row. org_slug row = ''my-org'') (organizations st)"
  then show "\<exists>row st''. Organization_objects_create insert_organization st ''My Org'' email
      description None = Inr (row, st'')"
    by (simp add: Organization_objects_create_def Organization_save_def slugify_My_Org
        insert_organization_succeeds)
next
  assume a: "\<not> truthy slug \<and>
      Organization_objects_create insert_organization st name email description slug
        = Inr (org, st')"
  then have "(case slug of None \<Rightarrow> [] | Some v \<Rightarrow> v) = []"
    by (cases slug) auto
  with a show "org_slug org = slugify name" "org \<in> set (organizations st')"
    by (auto simp: Organization_objects_create_def Organization_save_def
        dest: insert_organization_slug)
next
  assume "s \<noteq> [] \<and>
      Organization_objects_create insert_organization st name email description (Some s)
        = Inr (org, st')"
  then show "org_slug org = s" "org \<in> set (organizations st')"
    by (auto simp: Organization_objects_create_def Organization_save_def
        dest: insert_organization_slug)
qed

theorem organization_slug_on_create_witness:
  "Organization_objects_create insert_organization empty_store ''My Org'' ''m@example.com'' [] None
     = Inr (\<lparr>org_id = 1, org_name = ''My Org'', org_slug = ''my-org'',
              org_contact_email = ''m@example.com'', org_description = [], org_is_active = True\<rparr>,
            \<lparr>organizations =
               [\<lparr>org_id = 1, org_name = ''My Org'', org_slug = ''my-org'',
                 org_contact_email = ''m@example.com'', org_description = [],
                 org_is_active = True\<rparr>],
             projects = [], tasks = [], task_comments = []\<rparr>)
   \<and> Organization_objects_create insert_organization sample_store ''My Org'' ''m@example.com'' []
       (Some ''Custom_Slug'')
     = Inr (\<lparr>org_id = 3, org_name = ''My Org'', org_slug = ''Custom_Slug'',
              org_contact_email = ''m@example.com'', org_description = [], org_is_active = True\<rparr>,
            sample_store\<lparr>organizations := [org_a, org_b,
               \<lparr>org_id = 3, org_name = ''My Org'', org_slug = ''Custom_Slug'',
                 org_contact_email = ''m@example.com'', org_description = [],
                 org_is_active = True\<rparr>]\<rparr>)"
proof -
  have c1: "Organization_objects_create insert_organization empty_store ''My Org'' ''m@example.com''
      [] None
     = Inr (\<lparr>org_id = 1, org_name = ''My Org'', org_slug = ''my-org'',
              org_contact_email = ''m@example.com'', org_description = [], org_is_active = True\<rparr>,
            \<lparr>organizations =
               [\<lparr>org_id = 1, org_name = ''My Org'', org_slug = ''my-org'',
                 org_contact_email = ''m@example.com'', org_description = [],
                 org_is_active = True\<rparr>],
             projects = [], tasks = [], task_comments = []\<rparr>)"
    by (simp add: Organization_objects_create_def Organization_save_def slugify_My_Org
        insert_organization_def empty_store_def next_id_def Let_def)
  have c2: "Organization_objects_create insert_organization sample_store ''My Org''
       ''m@example.com'' [] (Some ''Custom_Slug'')
     = Inr (\<lparr>org_id = 3, org_name = ''My Org'', org_slug = ''Custom_Slug'',
              org_contact_email = ''m@example.com'', org_description = [], org_is_active = True\<rparr>,
            sample_store\<lparr>organizations := [org_a, org_b,
               \<lparr>org_id = 3, org_name = ''My Org'', org_slug = ''Custom_Slug'',
                 org_contact_email = ''m@example.com'', org_description = [],
                 org_is_active = True\<rparr>]\<rparr>)"
    by (simp add: Organization_objects_create_def Organization_save_def
        insert_organization_def sample_store_def next_id_def org_a_def org_b_def Let_def)
  show ?thesis
    using
      organization_slug_on_create [of empty_store "''m@example.com''" "[]" _ _ None "''My Org''"
        "''Custom_Slug''"]
      organization_slug_on_create [of sample_store "''m@example.com''" "[]" _ _ None "''My Org''"
        "''Custom_Slug''"]
    by (simp add: c1 c2)
qed

subsection \<open>Mutations\<close>

lemma mutation_result_total: "\<exists>payload st'. mutation_result not_found st body = Inr (payload, st')"
  by (auto simp: mutation_result_def split: sum.splits option.splits prod.splits)

lemma mutation_result_Inl:
  "mutation_result (Some (m, msg)) st (Inl e) =
     Inr (failed [if e = DoesNotExist m then msg else str_exn e], st)"
  "mutation_result None st (Inl e) = Inr (failed [str_exn e], st)"
  by (simp_all add: mutation_result_def)

lemma mutation_result_Inr: "mutation_result not_found st (Inr (obj, st')) = Inr (succeeded obj, st')"
  by (simp add: mutation_result_def)

text \<open>
  C7. Every mutation returns a payload, whatever the Entity Store does: when an operation of
  the store raises an exception \<open>e\<close>, the result has \<^verbatim>\<open>success = False\<close>, no object, and the
  single error \<^verbatim>\<open>str(e)\<close>, and the store is unchanged; when \<open>e\<close> is the \<^verbatim>\<open>DoesNotExist\<close> of the
  model the mutation looks up, the error is \<^verbatim>\<open>Organization not found\<close>, \<^verbatim>\<open>Project not found\<close> or
  \<^verbatim>\<open>Task not found\<close>.
\<close>

theorem mutations_catch_exceptions:
  "((\<exists>payload st'. CreateOrganizationMutation_mutate save_org st info name email description slug = Inr (payload, st')) \<and>
    (Organization_objects_create save_org st name email (or_default description []) slug = Inl e \<longrightarrow>
       CreateOrganizationMutation_mutate save_org st info name email description slug
         = Inr (failed [str_exn e], st)))
   \<and> ((\<exists>payload st'. UpdateOrganizationMutation_mutate get_org save_org st info ident okw = Inr (payload, st')) \<and>
    (get_org st ident = Inl e \<or>
     (\<exists>org. get_org st ident = Inr org \<and>
        Organization_save save_org st (set_organization_attrs okw org) = Inl e) \<longrightarrow>
       UpdateOrganizationMutation_mutate get_org save_org st info ident okw
         = Inr (failed [if e = DoesNotExist OrganizationModel then ''Organization not found''
                        else str_exn e], st)))
   \<and> ((\<exists>payload st'. CreateProjectMutation_mutate get_org create_proj st info ident name description status
            due_date = Inr (payload, st')) \<and>
    (get_org st ident = Inl e \<or>
     (\<exists>org. get_org st ident = Inr org \<and>
        create_proj st \<lparr>proj_id = 0, proj_organization = org, proj_name = name,
                        proj_description = or_default description [],
                        proj_status = or_default status ''ACTIVE'',
                        proj_due_date = due_date\<rparr> = Inl e) \<longrightarrow>
       CreateProjectMutation_mutate get_org create_proj st info ident name description status due_date
         = Inr (failed [if e = DoesNotExist OrganizationModel then ''Organization not found''
                        else str_exn e], st)))
   \<and> ((\<exists>payload st'. UpdateProjectMutation_mutate get_proj save_proj st info ident pkw = Inr (payload, st')) \<and>
    (get_proj st ident = Inl e \<or>
     (\<exists>p. get_proj st ident = Inr p \<and> save_proj st (set_project_attrs pkw p) = Inl e) \<longrightarrow>
       UpdateProjectMutation_mutate get_proj save_proj st info ident pkw
         = Inr (failed [if e = DoesNotExist ProjectModel then ''Project not found''
                        else str_exn e], st)))
   \<and> ((\<exists>payload st'. CreateTaskMutation_mutate get_proj create_task st info ident title ctk = Inr (payload, st')) \<and>
    (get_proj st ident = Inl e \<or>
     (\<exists>p. get_proj st ident = Inr p \<and>
        Task_objects_create create_task st p title
          (dict_get (ctk_description ctk) []) (dict_get (ctk_status ctk) ''TODO'')
          (dict_get (ctk_priority ctk) ''MEDIUM'') (dict_get (ctk_assignee_email ctk) [])
          (ctk_due_date ctk) = Inl e) \<longrightarrow>
       CreateTaskMutation_mutate get_proj create_task st info ident title ctk
         = Inr (failed [if e = DoesNotExist ProjectModel then ''Project not found''
                        else str_exn e], st)))
   \<and> ((\<exists>payload st'. UpdateTaskMutation_mutate get_task save_task st info ident tkw = Inr (payload, st')) \<and>
    (get_task st ident = Inl e \<or>
     (\<exists>t. get_task st ident = Inr t \<and> save_task st (set_task_attrs tkw t) = Inl e) \<longrightarrow>
       UpdateTaskMutation_mutate get_task save_task st info ident tkw
         = Inr (failed [if e = DoesNotExist TaskModel then ''Task not found'' else str_exn e], st)))
   \<and> ((\<exists>payload st'. AddTaskCommentMutation_mutate get_task create_comment st info ident content author
            = Inr (payload, st')) \<and>
    (get_task st ident = Inl e \<or>
     (\<exists>t. get_task st ident = Inr t \<and>
        create_comment st \<lparr>comment_id = 0, comment_task = t, comment_content = content,
                           comment_author_email = author\<rparr> = Inl e) \<longrightarrow>
       AddTaskCommentMutation_mutate get_task create_comment st info ident content author
         = Inr (failed [if e = DoesNotExist TaskModel then ''Task not found'' else str_exn e], st)))"
proof -
  have b1: "(\<exists>payload st'. CreateOrganizationMutation_mutate save_org st info name email description slug = Inr (payload, st')) \<and>
    (Organization_objects_create save_org st name email (or_default description []) slug = Inl e \<longrightarrow>
       CreateOrganizationMutation_mutate save_org st info name email description slug
         = Inr (failed [str_exn e], st))"
    by (simp add: CreateOrganizationMutation_mutate_def mutation_result_total mutation_result_Inl)
  have b2: "(\<exists>payload st'. UpdateOrganizationMutation_mutate get_org save_org st info ident okw = Inr (payload, st')) \<and>
    (get_org st ident = Inl e \<or>
     (\<exists>org. get_org st ident = Inr org \<and>
        Organization_save save_org st (set_organization_attrs okw org) = Inl e) \<longrightarrow>
       UpdateOrganizationMutation_mutate get_org save_org st info ident okw
         = Inr (failed [if e = DoesNotExist OrganizationModel then ''Organization not found''
                        else str_exn e], st))"
    by (auto simp: UpdateOrganizationMutation_mutate_def mutation_result_total mutation_result_Inl)
  have b3: "(\<exists>payload st'. CreateProjectMutation_mutate get_org create_proj st info ident name description status
            due_date = Inr (payload, st')) \<and>
    (get_org st ident = Inl e \<or>
     (\<exists>org. get_org st ident = Inr org \<and>
        create_proj st \<lparr>proj_id = 0, proj_organization = org, proj_name = name,
                        proj_description = or_default description [],
                        proj_status = or_default status ''ACTIVE'',
                        proj_due_date = due_date\<rparr> = Inl e) \<longrightarrow>
       CreateProjectMutation_mutate get_org create_proj st info ident name description status due_date
         = Inr (failed [if e = DoesNotExist OrganizationModel then ''Organization not found''
                        else str_exn e], st))"
    by (auto simp: CreateProjectMutation_mutate_def mutation_result_total mutation_result_Inl)
  have b4: "(\<exists>payload st'. UpdateProjectMutation_mutate get_proj save_proj st info ident pkw = Inr (payload, st')) \<and>
    (get_proj st ident = Inl e \<or>
     (\<exists>p. get_proj st ident = Inr p \<and> save_proj st (set_project_attrs pkw p) = Inl e) \<longrightarrow>
       UpdateProjectMutation_mutate get_proj save_proj st info ident pkw
         = Inr (failed [if e = DoesNotExist ProjectModel then ''Project not found''
                        else str_exn e], st))"
    by (auto simp: UpdateProjectMutation_mutate_def mutation_result_total mutation_result_Inl)
  have b5: "(\<exists>payload st'. CreateTaskMutation_mutate get_proj create_task st info ident title ctk = Inr (payload, st')) \<and>
    (get_proj st ident = Inl e \<or>
     (\<exists>p. get_proj st ident = Inr p \<and>
        Task_objects_create create_task st p title
          (dict_get (ctk_description ctk) []) (dict_get (ctk_status ctk) ''TODO'')
          (dict_get (ctk_priority ctk) ''MEDIUM'') (dict_get (ctk_assignee_email ctk) [])
          (ctk_due_date ctk) = Inl e) \<longrightarrow>
       CreateTaskMutation_mutate get_proj create_task st info ident title ctk
         = Inr (failed [if e = DoesNotExist ProjectModel then ''Project not found''
                        else str_exn e], st))"
    by (auto simp: CreateTaskMutation_mutate_def mutation_result_total mutation_result_Inl)
  have b6: "(\<exists>payload st'. UpdateTaskMutation_mutate get_task save_task st info ident tkw = Inr (payload, st')) \<and>
    (get_task st ident = Inl e \<or>
     (\<exists>t. get_task st ident = Inr t \<and> save_task st (set_task_attrs tkw t) = Inl e) \<longrightarrow>
       UpdateTaskMutation_mutate get_task save_task st info ident tkw
         = Inr (failed [if e = DoesNotExist TaskModel then ''Task not found'' else str_exn e], st))"
    by (auto simp: UpdateTaskMutation_mutate_def mutation_result_total mutation_result_Inl)
  have b7: "(\<exists>payload st'. AddTaskCommentMutation_mutate get_task create_comment st info ident content author
            = Inr (payload, st')) \<and>
    (get_task st ident = Inl e \<or>
     (\<exists>t. get_task st ident = Inr t \<and>
        create_comment st \<lparr>comment_id = 0, comment_task = t, comment_content = content,
                           comment_author_email = author\<rparr> = Inl e) \<longrightarrow>
       AddTaskCommentMutation_mutate get_task create_comment st info ident content author
         = Inr (failed [if e = DoesNotExist TaskModel then ''Task not found'' else str_exn e], st))"
    by (auto simp: AddTaskCommentMutation_mutate_def mutation_result_total mutation_result_Inl)
  show ?thesis
    by (rule conjI [OF b1 conjI [OF b2 conjI [OF b3 conjI [OF b4 conjI [OF b5 conjI [OF b6 b7]]]]]])
qed

theorem mutations_catch_exceptions_witness:
  "CreateProjectMutation_mutate Organization_get_pk insert_project sample_store
      (sample_request [] [] ''/graphql/'' (Some (Some org_a))) ''1'' ''Website'' None None None
     = Inr (failed [''UNIQUE constraint failed: projects.organization_id, projects.name''],
            sample_store)
   \<and> UpdateTaskMutation_mutate Task_get_pk (\<lambda>st t. Inl (StoreError ''database is locked''))
      sample_store (sample_request [] [] ''/graphql/'' (Some (Some org_a))) ''99''
      \<lparr>tkw_title = Some ''New title'', tkw_description = None, tkw_status = None,
       tkw_priority = None, tkw_assignee_email = None, tkw_due_date = None\<rparr>
     = Inr (failed [''Task not found''], sample_store)
   \<and> UpdateTaskMutation_mutate Task_get_pk (\<lambda>st t. Inl (StoreError ''database is locked''))
      sample_store (sample_request [] [] ''/graphql/'' (Some (Some org_a))) ''1''
      \<lparr>tkw_title = Some ''New title'', tkw_description = None, tkw_status = None,
       tkw_priority = None, tkw_assignee_email = None, tkw_due_date = None\<rparr>
     = Inr (failed [''database is locked''], sample_store)"
proof -
  have g1: "Organization_get_pk sample_store ''1'' = Inr org_a"
    by (simp add: Organization_get_pk_def pk_value_1 sample_store_def org_a_def org_b_def)
  have c1: "insert_project sample_store
      \<lparr>proj_id = 0, proj_organization = org_a, proj_name = ''Website'',
       proj_description = or_default None [], proj_status = or_default None ''ACTIVE'',
       proj_due_date = None\<rparr>
     = Inl (IntegrityError ''UNIQUE constraint failed: projects.organization_id, projects.name'')"
    by (simp add: insert_project_def sample_store_def project_a_def organization_eq_def)
  have g2: "Task_get_pk sample_store ''99'' = Inl (DoesNotExist TaskModel)"
    by (simp add: Task_get_pk_def pk_value_99 sample_store_def sample_task_def)
  have g3: "Task_get_pk sample_store ''1'' = Inr (sample_task 1 project_a ''DONE'')"
    by (simp add: Task_get_pk_def pk_value_1 sample_store_def sample_task_def)
  show ?thesis
    using
      mutations_catch_exceptions [where get_org = Organization_get_pk
        and create_proj = insert_project and st = sample_store and ident = "''1''"
        and name = "''Website''" and description = None and status = None and due_date = None
        and info = "sample_request [] [] ''/graphql/'' (Some (Some org_a))"
        and e = "IntegrityError ''UNIQUE constraint failed: projects.organization_id, projects.name''"]
      mutations_catch_exceptions [where get_task = Task_get_pk
        and save_task = "\<lambda>st t. Inl (StoreError ''database is locked'')"
        and st = sample_store and ident = "''99''"
        and tkw = "\<lparr>tkw_title = Some ''New title'', tkw_description = None, tkw_status = None,
          tkw_priority = None, tkw_assignee_email = None, tkw_due_date = None\<rparr>"
        and info = "sample_request [] [] ''/graphql/'' (Some (Some org_a))"
        and e = "DoesNotExist TaskModel"]
      mutations_catch_exceptions [where get_task = Task_get_pk
        and save_task = "\<lambda>st t. Inl (StoreError ''database is locked'')"
        and st = sample_store and ident = "''1''"
        and tkw = "\<lparr>tkw_title = Some ''New title'', tkw_description = None, tkw_status = None,
          tkw_priority = None, tkw_assignee_email = None, tkw_due_date = None\<rparr>"
        and info = "sample_request [] [] ''/graphql/'' (Some (Some org_a))"
        and e = "StoreError ''database is locked''"]
    by (simp add: g1 c1 g2 g3)
qed

subsection \<open>Validation of the organization\<close>

lemma mutation_result_not_Inl: "mutation_result not_found st body \<noteq> Inl e"
  by (auto simp: mutation_result_def split: sum.splits option.splits prod.splits)

text \<open>
  C4, as stated, fails: organization 2 of the sample store is inactive and the request has no
  tenant, \<^verbatim>\<open>validate_organization_access\<close> would raise for either, and yet
  \<^verbatim>\<open>CreateProjectMutation\<close> creates the project and reports success.
\<close>

theorem create_project_unchecked_counterexample:
  "validate_organization_access (Some org_b) = Inl (PermissionDenied ''Organization is not active'')
   \<and> validate_organization_access
        (context_organization (sample_request [] [] ''/graphql/'' (Some None)))
      = Inl (PermissionDenied ''Organization not found'')
   \<and> CreateProjectMutation_mutate Organization_get_pk insert_project sample_store
        (sample_request [] [] ''/graphql/'' (Some None)) ''2'' ''Site'' None None None
      = Inr (succeeded
               \<lparr>proj_id = 3, proj_organization = org_b, proj_name = ''Site'',
                proj_description = [], proj_status = ''ACTIVE'', proj_due_date = None\<rparr>,
             sample_store\<lparr>projects :=
               [\<lparr>proj_id = 3, proj_organization = org_b, proj_name = ''Site'',
                 proj_description = [], proj_status = ''ACTIVE'', proj_due_date = None\<rparr>,
                project_b, project_a]\<rparr>)"
proof -
  have g: "Organization_get_pk sample_store ''2'' = Inr org_b"
    by (simp add: Organization_get_pk_def pk_value_2 sample_store_def org_a_def org_b_def)
  have v: "validate_organization_access (Some org_b)
      = Inl (PermissionDenied ''Organization is not active'')"
    by (simp add: validate_organization_access_def org_b_def)
  have c: "insert_project sample_store
      \<lparr>proj_id = 0, proj_organization = org_b, proj_name = ''Site'', proj_description = [],
       proj_status = ''ACTIVE'', proj_due_date = None\<rparr>
     = Inr (\<lparr>proj_id = 3, proj_organization = org_b, proj_name = ''Site'',
              proj_description = [], proj_status = ''ACTIVE'', proj_due_date = None\<rparr>,
            sample_store\<lparr>projects :=
               [\<lparr>proj_id = 3, proj_organization = org_b, proj_name = ''Site'',
                 proj_description = [], proj_status = ''ACTIVE'', proj_due_date = None\<rparr>,
                project_b, project_a]\<rparr>)"
    by (simp add: insert_project_def sample_store_def project_a_def project_b_def
        organization_eq_def next_id_def Let_def org_a_def org_b_def)
  have n: "validate_organization_access
        (context_organization (sample_request [] [] ''/graphql/'' (Some None)))
      = Inl (PermissionDenied ''Organization not found'')"
    by (simp add: validate_organization_access_def context_organization_sample)
  have m: "CreateProjectMutation_mutate Organization_get_pk insert_project sample_store
        (sample_request [] [] ''/graphql/'' (Some None)) ''2'' ''Site'' None None None
      = Inr (succeeded
               \<lparr>proj_id = 3, proj_organization = org_b, proj_name = ''Site'',
                proj_description = [], proj_status = ''ACTIVE'', proj_due_date = None\<rparr>,
             sample_store\<lparr>projects :=
               [\<lparr>proj_id = 3, proj_organization = org_b, proj_name = ''Site'',
                 proj_description = [], proj_status = ''ACTIVE'', proj_due_date = None\<rparr>,
                project_b, project_a]\<rparr>)"
    by (simp add: CreateProjectMutation_mutate_def g c mutation_result_def or_default_def)
  show ?thesis
    by (rule conjI [OF v conjI [OF n m]])
qed

text \<open>
  C4, amended. \<^verbatim>\<open>validate_organization_access(organization)\<close> raises \<^verbatim>\<open>PermissionDenied\<close>
  exactly when the organization is \<^verbatim>\<open>None\<close> or has \<^verbatim>\<open>is_active = False\<close>, and returns \<^verbatim>\<open>True\<close>
  otherwise. The check is performed before no mutation: each of the seven mutations returns
  the same result whatever the request and its tenant, never raises \<^verbatim>\<open>PermissionDenied\<close>, and
  succeeds whenever the row it looks up is found and the store accepts the write, also
  without a tenant and for an inactive organization. A missing row gives \<^verbatim>\<open>success = False\<close>
  with the listed error \<^verbatim>\<open>Organization not found\<close> (update organization, create project),
  \<^verbatim>\<open>Project not found\<close> (update project, create task) or \<^verbatim>\<open>Task not found\<close> (update task, add
  comment).
\<close>

theorem validation_not_applied_by_mutations:
  "(((\<exists>msg. validate_organization_access organization = Inl (PermissionDenied msg)) \<longleftrightarrow>
       (organization = None \<or> (\<exists>a. organization = Some a \<and> \<not> org_is_active a))) \<and>
    ((\<exists>a. organization = Some a \<and> org_is_active a) \<longrightarrow>
       validate_organization_access organization = Inr True))
   \<and> ((Organization_objects_create save_org st name email (or_default description []) slug
         = Inr (org, st') \<longrightarrow>
       CreateOrganizationMutation_mutate save_org st info name email description slug
         = Inr (succeeded org, st')) \<and>
     CreateOrganizationMutation_mutate save_org st info name email description slug
       = CreateOrganizationMutation_mutate save_org st info' name email description slug \<and>
     (\<forall>msg. CreateOrganizationMutation_mutate save_org st info name email description slug
         \<noteq> Inl (PermissionDenied msg)))
   \<and> ((get_org st ident = Inr org \<and>
       Organization_save save_org st (set_organization_attrs okw org) = Inr (org', st') \<longrightarrow>
       UpdateOrganizationMutation_mutate get_org save_org st info ident okw
         = Inr (succeeded org', st')) \<and>
     (get_org st ident = Inl (DoesNotExist OrganizationModel) \<longrightarrow>
       UpdateOrganizationMutation_mutate get_org save_org st info ident okw
         = Inr (failed [''Organization not found''], st)) \<and>
     UpdateOrganizationMutation_mutate get_org save_org st info ident okw
       = UpdateOrganizationMutation_mutate get_org save_org st info' ident okw \<and>
     (\<forall>msg. UpdateOrganizationMutation_mutate get_org save_org st info ident okw
         \<noteq> Inl (PermissionDenied msg)))
   \<and> ((get_org st ident = Inr org \<and>
       create_proj st \<lparr>proj_id = 0, proj_organization = org, proj_name = name,
                       proj_description = or_default description [],
                       proj_status = or_default status ''ACTIVE'',
                       proj_due_date = due_date\<rparr> = Inr (p, st') \<longrightarrow>
       CreateProjectMutation_mutate get_org create_proj st info ident name description status
         due_date = Inr (succeeded p, st')) \<and>
     (get_org st ident = Inl (DoesNotExist OrganizationModel) \<longrightarrow>
       CreateProjectMutation_mutate get_org create_proj st info ident name description status
         due_date = Inr (failed [''Organization not found''], st)) \<and>
     CreateProjectMutation_mutate get_org create_proj st info ident name description status
         due_date
       = CreateProjectMutation_mutate get_org create_proj st info' ident name description status
           due_date \<and>
     (\<forall>msg. CreateProjectMutation_mutate get_org create_proj st info ident name description
         status due_date \<noteq> Inl (PermissionDenied msg)))
   \<and> ((get_proj st ident = Inr p \<and> save_proj st (set_project_attrs pkw p) = Inr (p', st') \<longrightarrow>
       UpdateProjectMutation_mutate get_proj save_proj st info ident pkw
         = Inr (succeeded p', st')) \<and>
     (get_proj st ident = Inl (DoesNotExist ProjectModel) \<longrightarrow>
       UpdateProjectMutation_mutate get_proj save_proj st info ident pkw
         = Inr (failed [''Project not found''], st)) \<and>
     UpdateProjectMutation_mutate get_proj save_proj st info ident pkw
       = UpdateProjectMutation_mutate get_proj save_proj st info' ident pkw \<and>
     (\<forall>msg. UpdateProjectMutation_mutate get_proj save_proj st info ident pkw
         \<noteq> Inl (PermissionDenied msg)))
   \<and> ((get_proj st ident = Inr p \<and>
       Task_objects_create create_task st p title
         (dict_get (ctk_description ctk) []) (dict_get (ctk_status ctk) ''TODO'')
         (dict_get (ctk_priority ctk) ''MEDIUM'') (dict_get (ctk_assignee_email ctk) [])
         (ctk_due_date ctk) = Inr (t, st') \<longrightarrow>
       CreateTaskMutation_mutate get_proj create_task st info ident title ctk
         = Inr (succeeded t, st')) \<and>
     (get_proj st ident = Inl (DoesNotExist ProjectModel) \<longrightarrow>
       CreateTaskMutation_mutate get_proj create_task st info ident title ctk
         = Inr (failed [''Project not found''], st)) \<and>
     CreateTaskMutation_mutate get_proj create_task st info ident title ctk
       = CreateTaskMutation_mutate get_proj create_task st info' ident title ctk \<and>
     (\<forall>msg. CreateTaskMutation_mutate get_proj create_task st info ident title ctk
         \<noteq> Inl (PermissionDenied msg)))
   \<and> ((get_task st ident = Inr t \<and> save_task st (set_task_attrs tkw t) = Inr (t', st') \<longrightarrow>
       UpdateTaskMutation_mutate get_task save_task st info ident tkw
         = Inr (succeeded t', st')) \<and>
     (get_task st ident = Inl (DoesNotExist TaskModel) \<longrightarrow>
       UpdateTaskMutation_mutate get_task save_task st info ident tkw
         = Inr (failed [''Task not found''], st)) \<and>
     UpdateTaskMutation_mutate get_task save_task st info ident tkw
       = UpdateTaskMutation_mutate get_task save_task st info' ident tkw \<and>
     (\<forall>msg. UpdateTaskMutation_mutate get_task save_task st info ident tkw
         \<noteq> Inl (PermissionDenied msg)))
   \<and> ((get_task st ident = Inr t \<and>
       create_comment st \<lparr>comment_id = 0, comment_task = t, comment_content = content,
                          comment_author_email = author\<rparr> = Inr (c, st') \<longrightarrow>
       AddTaskCommentMutation_mutate get_task create_comment st info ident content author
         = Inr (succeeded c, st')) \<and>
     (get_task st ident = Inl (DoesNotExist TaskModel) \<longrightarrow>
       AddTaskCommentMutation_mutate get_task create_comment st info ident content author
         = Inr (failed [''Task not found''], st)) \<and>
     AddTaskCommentMutation_mutate get_task create_comment st info ident content author
       = AddTaskCommentMutation_mutate get_task create_comment st info' ident content author \<and>
     (\<forall>msg. AddTaskCommentMutation_mutate get_task create_comment st info ident content author
         \<noteq> Inl (PermissionDenied msg)))"
proof -
  have v: "((\<exists>msg. validate_organization_access organization = Inl (PermissionDenied msg)) \<longleftrightarrow>
       (organization = None \<or> (\<exists>a. organization = Some a \<and> \<not> org_is_active a))) \<and>
    ((\<exists>a. organization = Some a \<and> org_is_active a) \<longrightarrow>
       validate_organization_access organization = Inr True)"
    by (cases organization) (auto simp: validate_organization_access_def)
  have b1: "(Organization_objects_create save_org st name email (or_default description []) slug
         = Inr (org, st') \<longrightarrow>
       CreateOrganizationMutation_mutate save_org st info name email description slug
         = Inr (succeeded org, st')) \<and>
     CreateOrganizationMutation_mutate save_org st info name email description slug
       = CreateOrganizationMutation_mutate save_org st info' name email description slug \<and>
     (\<forall>msg. CreateOrganizationMutation_mutate save_org st info name email description slug
         \<noteq> Inl (PermissionDenied msg))"
    by (simp add: CreateOrganizationMutation_mutate_def mutation_result_Inr
        mutation_result_not_Inl)
  have b2: "(get_org st ident = Inr org \<and>
       Organization_save save_org st (set_organization_attrs okw org) = Inr (org', st') \<longrightarrow>
       UpdateOrganizationMutation_mutate get_org save_org st info ident okw
         = Inr (succeeded org', st')) \<and>
     (get_org st ident = Inl (DoesNotExist OrganizationModel) \<longrightarrow>
       UpdateOrganizationMutation_mutate get_org save_org st info ident okw
         = Inr (failed [''Organization not found''], st)) \<and>
     UpdateOrganizationMutation_mutate get_org save_org st info ident okw
       = UpdateOrganizationMutation_mutate get_org save_org st info' ident okw \<and>
     (\<forall>msg. UpdateOrganizationMutation_mutate get_org save_org st info ident okw
         \<noteq> Inl (PermissionDenied msg))"
    by (simp add: UpdateOrganizationMutation_mutate_def mutation_result_Inr mutation_result_Inl
        mutation_result_not_Inl)
  have b3: "(get_org st ident = Inr org \<and>
       create_proj st \<lparr>proj_id = 0, proj_organization = org, proj_name = name,
                       proj_description = or_default description [],
                       proj_status = or_default status ''ACTIVE'',
                       proj_due_date = due_date\<rparr> = Inr (p, st') \<longrightarrow>
       CreateProjectMutation_mutate get_org create_proj st info ident name description status
         due_date = Inr (succeeded p, st')) \<and>
     (get_org st ident = Inl (DoesNotExist OrganizationModel) \<longrightarrow>
       CreateProjectMutation_mutate get_org create_proj st info ident name description status
         due_date = Inr (failed [''Organization not found''], st)) \<and>
     CreateProjectMutation_mutate get_org create_proj st info ident name description status
         due_date
       = CreateProjectMutation_mutate get_org create_proj st info' ident name description status
           due_date \<and>
     (\<forall>msg. CreateProjectMutation_mutate get_org create_proj st info ident name description
         status due_date \<noteq> Inl (PermissionDenied msg))"
    by (simp add: CreateProjectMutation_mutate_def mutation_result_Inr mutation_result_Inl
        mutation_result_not_Inl)
  have b4: "(get_proj st ident = Inr p \<and> save_proj st (set_project_attrs pkw p) = Inr (p', st') \<longrightarrow>
       UpdateProjectMutation_mutate get_proj save_proj st info ident pkw
         = Inr (succeeded p', st')) \<and>
     (get_proj st ident = Inl (DoesNotExist ProjectModel) \<longrightarrow>
       UpdateProjectMutation_mutate get_proj save_proj st info ident pkw
         = Inr (failed [''Project not found''], st)) \<and>
     UpdateProjectMutation_mutate get_proj save_proj st info ident pkw
       = UpdateProjectMutation_mutate get_proj save_proj st info' ident pkw \<and>
     (\<forall>msg. UpdateProjectMutation_mutate get_proj save_proj st info ident pkw
         \<noteq> Inl (PermissionDenied msg))"
    by (simp add: UpdateProjectMutation_mutate_def mutation_result_Inr mutation_result_Inl
        mutation_result_not_Inl)
  have b5: "(get_proj st ident = Inr p \<and>
       Task_objects_create create_task st p title
         (dict_get (ctk_description ctk) []) (dict_get (ctk_status ctk) ''TODO'')
         (dict_get (ctk_priority ctk) ''MEDIUM'') (dict_get (ctk_assignee_email ctk) [])
         (ctk_due_date ctk) = Inr (t, st') \<longrightarrow>
       CreateTaskMutation_mutate get_proj create_task st info ident title ctk
         = Inr (succeeded t, st')) \<and>
     (get_proj st ident = Inl (DoesNotExist ProjectModel) \<longrightarrow>
       CreateTaskMutation_mutate get_proj create_task st info ident title ctk
         = Inr (failed [''Project not found''], st)) \<and>
     CreateTaskMutation_mutate get_proj create_task st info ident title ctk
       = CreateTaskMutation_mutate get_proj create_task st info' ident title ctk \<and>
     (\<forall>msg. CreateTaskMutation_mutate get_proj create_task st info ident title ctk
         \<noteq> Inl (PermissionDenied msg))"
    by (simp add: CreateTaskMutation_mutate_def mutation_result_Inr mutation_result_Inl
        mutation_result_not_Inl)
  have b6: "(get_task st ident = Inr t \<and> save_task st (set_task_attrs tkw t) = Inr (t', st') \<longrightarrow>
       UpdateTaskMutation_mutate get_task save_task st info ident tkw
         = Inr (succeeded t', st')) \<and>
     (get_task st ident = Inl (DoesNotExist TaskModel) \<longrightarrow>
       UpdateTaskMutation_mutate get_task save_task st info ident tkw
         = Inr (failed [''Task not found''], st)) \<and>
     UpdateTaskMutation_mutate get_task save_task st info ident tkw
       = UpdateTaskMutation_mutate get_task save_task st info' ident tkw \<and>
     (\<forall>msg. UpdateTaskMutation_mutate get_task save_task st info ident tkw
         \<noteq> Inl (PermissionDenied msg))"
    by (simp add: UpdateTaskMutation_mutate_def mutation_result_Inr mutation_result_Inl
        mutation_result_not_Inl)
  have b7: "(get_task st ident = Inr t \<and>
       create_comment st \<lparr>comment_id = 0, comment_task = t, comment_content = content,
                          comment_author_email = author\<rparr> = Inr (c, st') \<longrightarrow>
       AddTaskCommentMutation_mutate get_task create_comment st info ident content author
         = Inr (succeeded c, st')) \<and>
     (get_task st ident = Inl (DoesNotExist TaskModel) \<longrightarrow>
       AddTaskCommentMutation_mutate get_task create_comment st info ident content author
         = Inr (failed [''Task not found''], st)) \<and>
     AddTaskCommentMutation_mutate get_task create_comment st info ident content author
       = AddTaskCommentMutation_mutate get_task create_comment st info' ident content author \<and>
     (\<forall>msg. AddTaskCommentMutation_mutate get_task create_comment st info ident content author
         \<noteq> Inl (PermissionDenied msg))"
    by (simp add: AddTaskCommentMutation_mutate_def mutation_result_Inr mutation_result_Inl
        mutation_result_not_Inl)
  show ?thesis
    by (rule conjI [OF v conjI [OF b1 conjI [OF b2 conjI [OF b3 conjI [OF b4 conjI [OF b5
          conjI [OF b6 b7]]]]]]])
qed

theorem validation_not_applied_by_mutations_witness:
  "validate_organization_access (Some org_b) = Inl (PermissionDenied ''Organization is not active'')
   \<and> validate_organization_access (Some org_a) = Inr True
   \<and> \<not> org_is_active (proj_organization project_b)
   \<and> CreateTaskMutation_mutate Project_get_pk insert_task sample_store
        (sample_request [] [] ''/graphql/'' (Some None)) ''2'' ''Deploy''
        \<lparr>ctk_description = None, ctk_status = None, ctk_priority = None,
         ctk_assignee_email = None, ctk_due_date = None\<rparr>
      = Inr (succeeded
               \<lparr>task_id = 6, task_project = project_b, task_title = ''Deploy'',
                task_description = [], task_status = ''TODO'', task_priority = ''MEDIUM'',
                task_assignee_email = [], task_due_date = None\<rparr>,
             sample_store\<lparr>tasks :=
               \<lparr>task_id = 6, task_project = project_b, task_title = ''Deploy'',
                task_description = [], task_status = ''TODO'', task_priority = ''MEDIUM'',
                task_assignee_email = [], task_due_date = None\<rparr> # tasks sample_store\<rparr>)
   \<and> CreateProjectMutation_mutate Organization_get_pk insert_project sample_store
        (sample_request [] [] ''/graphql/'' (Some None)) ''99'' ''Site'' None None None
      = Inr (failed [''Organization not found''], sample_store)"
proof -
  have g: "Project_get_pk sample_store ''2'' = Inr project_b"
    by (simp add: Project_get_pk_def pk_value_2 sample_store_def project_a_def project_b_def)
  have g99: "Organization_get_pk sample_store ''99'' = Inl (DoesNotExist OrganizationModel)"
    by (simp add: Organization_get_pk_def pk_value_99 sample_store_def org_a_def org_b_def)
  have c: "Task_objects_create insert_task sample_store project_b ''Deploy''
        (dict_get None []) (dict_get None ''TODO'') (dict_get None ''MEDIUM'') (dict_get None [])
        None
      = Inr (\<lparr>task_id = 6, task_project = project_b, task_title = ''Deploy'',
                task_description = [], task_status = ''TODO'', task_priority = ''MEDIUM'',
                task_assignee_email = [], task_due_date = None\<rparr>,
             sample_store\<lparr>tasks :=
               \<lparr>task_id = 6, task_project = project_b, task_title = ''Deploy'',
                task_description = [], task_status = ''TODO'', task_priority = ''MEDIUM'',
                task_assignee_email = [], task_due_date = None\<rparr> # tasks sample_store\<rparr>)"
    by (simp add: Task_objects_create_def insert_task_def Let_def next_id_def sample_store_def
        sample_task_def)
  have a: "\<not> org_is_active org_b" "org_is_active org_a" "proj_organization project_b = org_b"
    by (simp_all add: org_a_def org_b_def project_b_def)
  note inst = validation_not_applied_by_mutations [where save_org = insert_organization
        and get_org = Organization_get_pk and create_proj = insert_project
        and get_proj = Project_get_pk and save_proj = insert_project
        and create_task = insert_task and get_task = Task_get_pk and save_task = insert_task
        and create_comment = "\<lambda>st c. Inr (c, st)" and st = sample_store
        and info = "sample_request [] [] ''/graphql/'' (Some None)"
        and info' = "sample_request [] [] ''/graphql/'' (Some (Some org_a))"
        and name = "''Site''" and email = "[]" and description = None and slug = None
        and status = None and due_date = None and org = org_b and org' = org_b
        and okw = "\<lparr>okw_name = None, okw_contact_email = None, okw_description = None,
          okw_is_active = None\<rparr>"
        and pkw = "\<lparr>pkw_name = None, pkw_description = None, pkw_status = None,
          pkw_due_date = None\<rparr>"
        and tkw = "\<lparr>tkw_title = None, tkw_description = None, tkw_status = None,
          tkw_priority = None, tkw_assignee_email = None, tkw_due_date = None\<rparr>"
        and p = project_b and p' = project_b and title = "''Deploy''"
        and ctk = "\<lparr>ctk_description = None, ctk_status = None, ctk_priority = None,
          ctk_assignee_email = None, ctk_due_date = None\<rparr>"
        and t = "\<lparr>task_id = 6, task_project = project_b, task_title = ''Deploy'',
                 task_description = [], task_status = ''TODO'', task_priority = ''MEDIUM'',
                 task_assignee_email = [], task_due_date = None\<rparr>"
        and t' = "sample_task 1 project_a ''DONE''"
        and c = "sample_comment 1 (sample_task 1 project_a ''DONE'')"
        and content = "''Looks good''" and author = "''c@example.com''"
        and st' = "sample_store\<lparr>tasks :=
               \<lparr>task_id = 6, task_project = project_b, task_title = ''Deploy'',
                task_description = [], task_status = ''TODO'', task_priority = ''MEDIUM'',
                task_assignee_email = [], task_due_date = None\<rparr> # tasks sample_store\<rparr>"]
  have v1: "validate_organization_access (Some org_b)
      = Inl (PermissionDenied ''Organization is not active'')"
    using inst [where organization = "Some org_b" and ident = "''2''"] a
    by (auto simp: validate_organization_access_def)
  have v2: "validate_organization_access (Some org_a) = Inr True"
    using inst [where organization = "Some org_a" and ident = "''2''"] a by simp
  have m1: "CreateTaskMutation_mutate Project_get_pk insert_task sample_store
        (sample_request [] [] ''/graphql/'' (Some None)) ''2'' ''Deploy''
        \<lparr>ctk_description = None, ctk_status = None, ctk_priority = None,
         ctk_assignee_email = None, ctk_due_date = None\<rparr>
      = Inr (succeeded
               \<lparr>task_id = 6, task_project = project_b, task_title = ''Deploy'',
                task_description = [], task_status = ''TODO'', task_priority = ''MEDIUM'',
                task_assignee_email = [], task_due_date = None\<rparr>,
             sample_store\<lparr>tasks :=
               \<lparr>task_id = 6, task_project = project_b, task_title = ''Deploy'',
                task_description = [], task_status = ''TODO'', task_priority = ''MEDIUM'',
                task_assignee_email = [], task_due_date = None\<rparr> # tasks sample_store\<rparr>)"
    using inst [where organization = "Some org_b" and ident = "''2''"] g c by simp
  have m2: "CreateProjectMutation_mutate Organization_get_pk insert_project sample_store
        (sample_request [] [] ''/graphql/'' (Some None)) ''99'' ''Site'' None None None
      = Inr (failed [''Organization not found''], sample_store)"
    using inst [where organization = "Some org_b" and ident = "''99''"] g99 by simp
  show ?thesis
    using v1 v2 m1 m2 a by simp
qed

end
